theory Spec2Isabelle
  imports Main "HOL-Library.Word"
begin

section \<open>UVRE: the OpenGL render devices\<close>

text \<open>
  A shallow embedding of the two OpenGL back ends of UVRE:
  \<^item> \<open>RenderDeviceImpl\<close> of \<^verbatim>\<open>gl_33/gl33_renderdevice.cpp\<close> (the OpenGL 3.3 variant, which
    records command lists and replays them in \<open>submit\<close>), and
  \<^item> \<open>GLRenderDevice\<close> of \<^verbatim>\<open>src_gl/gl_renderdevice.cpp\<close> (the direct-state-access variant).

  The OpenGL driver is outside the program. A call into it is a value of \<open>gl_call\<close>, and every
  modelled function returns the list of calls it issues, in program order. Whatever the
  driver answers (a fresh object name, a compile status, a framebuffer status) is an argument
  of the modelled function, or comes from the name supply of the device model.
\<close>

subsection \<open>Machine types\<close>

text \<open>
  \<open>size_t\<close> is the 64-bit unsigned type of an LP64 platform: \<open>+\<close> wraps modulo \<open>2 ^ 64\<close>.
  Object names and indices (\<open>uint32_t\<close>) and pointers into caller memory are natural numbers.
\<close>

type_synonym size_t = "64 word"
type_synonym GLuint = nat
type_synonym ptr = nat

text \<open>
  The conversions the code makes where it hands a value to the driver:
  \<open>static_cast<GLsizei>\<close> and \<open>static_cast<GLint>\<close> of a \<open>size_t\<close> keep the low 32 bits and
  read them as a signed value, \<open>static_cast<GLuint>\<close> of a \<open>size_t\<close> keeps the low 32 bits, and
  an \<open>int32_t\<close> passed for a \<open>GLuint\<close> parameter is taken modulo \<open>2 ^ 32\<close>.
\<close>

definition toGLsizei :: "size_t \<Rightarrow> int" where
  "toGLsizei n = sint (ucast n :: 32 word)"

definition toGLint :: "size_t \<Rightarrow> int" where
  "toGLint n = sint (ucast n :: 32 word)"

definition toGLuint :: "size_t \<Rightarrow> nat" where
  "toGLuint n = unat (ucast n :: 32 word)"

definition int32_toGLuint :: "int \<Rightarrow> nat" where
  "int32_toGLuint i = nat (i mod 2 ^ 32)"

datatype GLtarget = GL_COPY_READ_BUFFER | GL_ELEMENT_ARRAY_BUFFER | GL_UNIFORM_BUFFER

type_synonym GLfloat = "32 word"

datatype GLcap = GL_BLEND | GL_DEPTH_TEST | GL_CULL_FACE | GL_SCISSOR_TEST

datatype GLfbtarget = GL_FRAMEBUFFER | GL_READ_FRAMEBUFFER | GL_DRAW_FRAMEBUFFER

text \<open>
  The calls that create, fill and delete objects, grouped by the kind of object: shaders and
  programs, framebuffers, buffers and vertex arrays. In a trace such a call is written with
  the capital \<open>Gl\<close>, like the others.
\<close>

datatype gl_shader_call =
    glCreateShader nat GLuint
  | glShaderSource GLuint string
  | glShaderBinary GLuint ptr int
  | glSpecializeShader GLuint
  | glCompileShader GLuint
  | glDeleteShader GLuint
  | glCreateProgram GLuint
  | glProgramSeparable GLuint
  | glAttachShader GLuint GLuint
  | glLinkProgram GLuint
  | glDeleteProgram GLuint
  | glCreateProgramPipelines GLuint
  | glDeleteProgramPipelines GLuint
  | glUseProgramStages GLuint nat GLuint

datatype gl_framebuffer_call =
    glGenFramebuffers GLuint
  | glCreateFramebuffers GLuint
  | glFramebufferTexture2D nat GLuint
  | glNamedFramebufferTexture GLuint nat GLuint
  | glDeleteFramebuffers GLuint

datatype gl_buffer_call =
    glGenBuffers GLuint
  | glCreateBuffers GLuint
  | glDeleteBuffers GLuint
  | glBufferData GLtarget int ptr
  | glNamedBufferData GLuint int ptr
  | glBindVertexBuffer nat GLuint int
  | glVertexArrayVertexBuffer GLuint nat GLuint int
  | glDeleteVertexArrays GLuint
  | glCreateVertexArrays GLuint
  | glEnableVertexArrayAttrib GLuint nat
  | glVertexArrayAttribFormat GLuint nat int nat bool nat

text \<open>
  The driver calls the modelled functions issue. \<open>static_cast<GLintptr>\<close> and
  \<open>static_cast<GLsizeiptr>\<close> reinterpret the 64 bits of a \<open>size_t\<close> as a signed value, hence the
  \<open>int\<close> arguments (read with \<open>sint\<close>). A \<open>float\<close> is carried as its 32 bits; the code only
  passes floats on (the widening to \<open>GLdouble\<close> in \<open>glClearDepth\<close> is exact). Queries
  (\<open>glGet...\<close>) change nothing in the driver and are not part of the trace.
\<close>

datatype gl_call =
    GlBindBuffer GLtarget GLuint
  | GlBufferSubData GLtarget int int ptr
  | GlNamedBufferSubData GLuint int int ptr
  | GlScissor int int int int
  | GlViewport int int int int
  | GlClearDepth GLfloat
  | GlClearColor GLfloat GLfloat GLfloat GLfloat
  | GlClear nat
  | GlDisable GLcap
  | GlEnable GLcap
  | GlBlendEquation nat
  | GlBlendFunc nat nat
  | GlDepthFunc nat
  | GlCullFace nat
  | GlFrontFace nat
  | GlPolygonMode nat nat
  | GlUseProgram GLuint
  | GlBindBufferBase GLtarget nat GLuint
  | GlGenVertexArrays GLuint
  | GlBindVertexArray GLuint
  | GlEnableVertexAttribArray nat
  | GlVertexAttribFormat nat int nat bool nat
  | GlVertexAttribIFormat nat int nat nat
  | GlVertexAttribBinding nat nat
  | GlBindSampler nat GLuint
  | GlActiveTexture nat
  | GlBindTexture nat GLuint
  | GlBindFramebuffer GLfbtarget GLuint
  | GlBlitFramebuffer int int int int int int int int nat nat
  | GlDrawArraysInstancedBaseInstance nat int int int nat
  | GlDrawElementsInstancedBaseVertexBaseInstance nat int nat size_t int int nat
  | ShaderCall gl_shader_call
  | FramebufferCall gl_framebuffer_call
  | BufferCall gl_buffer_call


abbreviation GlCreateShader :: "nat \<Rightarrow> GLuint \<Rightarrow> gl_call" where
  "GlCreateShader ty n \<equiv> ShaderCall (glCreateShader ty n)"
abbreviation GlShaderSource :: "GLuint \<Rightarrow> string \<Rightarrow> gl_call" where
  "GlShaderSource n source \<equiv> ShaderCall (glShaderSource n source)"
abbreviation GlShaderBinary :: "GLuint \<Rightarrow> ptr \<Rightarrow> int \<Rightarrow> gl_call" where
  "GlShaderBinary n binary len \<equiv> ShaderCall (glShaderBinary n binary len)"
abbreviation GlSpecializeShader :: "GLuint \<Rightarrow> gl_call" where
  "GlSpecializeShader n \<equiv> ShaderCall (glSpecializeShader n)"
abbreviation GlCompileShader :: "GLuint \<Rightarrow> gl_call" where
  "GlCompileShader n \<equiv> ShaderCall (glCompileShader n)"
abbreviation GlDeleteShader :: "GLuint \<Rightarrow> gl_call" where
  "GlDeleteShader n \<equiv> ShaderCall (glDeleteShader n)"
abbreviation GlCreateProgram :: "GLuint \<Rightarrow> gl_call" where
  "GlCreateProgram n \<equiv> ShaderCall (glCreateProgram n)"
abbreviation GlProgramSeparable :: "GLuint \<Rightarrow> gl_call" where
  "GlProgramSeparable n \<equiv> ShaderCall (glProgramSeparable n)"
abbreviation GlAttachShader :: "GLuint \<Rightarrow> GLuint \<Rightarrow> gl_call" where
  "GlAttachShader pr sh \<equiv> ShaderCall (glAttachShader pr sh)"
abbreviation GlLinkProgram :: "GLuint \<Rightarrow> gl_call" where
  "GlLinkProgram n \<equiv> ShaderCall (glLinkProgram n)"
abbreviation GlDeleteProgram :: "GLuint \<Rightarrow> gl_call" where
  "GlDeleteProgram n \<equiv> ShaderCall (glDeleteProgram n)"
abbreviation GlCreateProgramPipelines :: "GLuint \<Rightarrow> gl_call" where
  "GlCreateProgramPipelines n \<equiv> ShaderCall (glCreateProgramPipelines n)"
abbreviation GlDeleteProgramPipelines :: "GLuint \<Rightarrow> gl_call" where
  "GlDeleteProgramPipelines n \<equiv> ShaderCall (glDeleteProgramPipelines n)"
abbreviation GlUseProgramStages :: "GLuint \<Rightarrow> nat \<Rightarrow> GLuint \<Rightarrow> gl_call" where
  "GlUseProgramStages pp bits pr \<equiv> ShaderCall (glUseProgramStages pp bits pr)"

abbreviation GlGenBuffers :: "GLuint \<Rightarrow> gl_call" where
  "GlGenBuffers n \<equiv> BufferCall (glGenBuffers n)"
abbreviation GlCreateBuffers :: "GLuint \<Rightarrow> gl_call" where
  "GlCreateBuffers n \<equiv> BufferCall (glCreateBuffers n)"
abbreviation GlDeleteBuffers :: "GLuint \<Rightarrow> gl_call" where
  "GlDeleteBuffers n \<equiv> BufferCall (glDeleteBuffers n)"
abbreviation GlBufferData :: "GLtarget \<Rightarrow> int \<Rightarrow> ptr \<Rightarrow> gl_call" where
  "GlBufferData tg len data \<equiv> BufferCall (glBufferData tg len data)"
abbreviation GlNamedBufferData :: "GLuint \<Rightarrow> int \<Rightarrow> ptr \<Rightarrow> gl_call" where
  "GlNamedBufferData n len data \<equiv> BufferCall (glNamedBufferData n len data)"
abbreviation GlBindVertexBuffer :: "nat \<Rightarrow> GLuint \<Rightarrow> int \<Rightarrow> gl_call" where
  "GlBindVertexBuffer binding n stride \<equiv> BufferCall (glBindVertexBuffer binding n stride)"
abbreviation GlVertexArrayVertexBuffer :: "GLuint \<Rightarrow> nat \<Rightarrow> GLuint \<Rightarrow> int \<Rightarrow> gl_call" where
  "GlVertexArrayVertexBuffer vao binding n stride \<equiv>
     BufferCall (glVertexArrayVertexBuffer vao binding n stride)"
abbreviation GlDeleteVertexArrays :: "GLuint \<Rightarrow> gl_call" where
  "GlDeleteVertexArrays n \<equiv> BufferCall (glDeleteVertexArrays n)"
abbreviation GlCreateVertexArrays :: "GLuint \<Rightarrow> gl_call" where
  "GlCreateVertexArrays n \<equiv> BufferCall (glCreateVertexArrays n)"
abbreviation GlEnableVertexArrayAttrib :: "GLuint \<Rightarrow> nat \<Rightarrow> gl_call" where
  "GlEnableVertexArrayAttrib vao attrib \<equiv> BufferCall (glEnableVertexArrayAttrib vao attrib)"
abbreviation GlVertexArrayAttribFormat ::
  "GLuint \<Rightarrow> nat \<Rightarrow> int \<Rightarrow> nat \<Rightarrow> bool \<Rightarrow> nat \<Rightarrow> gl_call" where
  "GlVertexArrayAttribFormat vao attrib n ty norm off \<equiv>
     BufferCall (glVertexArrayAttribFormat vao attrib n ty norm off)"

subsection \<open>Buffers\<close>

text \<open>
  \<open>struct Buffer_S { uint32_t bufobj; VBOBinding *vbo; size_t size; }\<close>. The pointer \<open>vbo\<close> is
  the address of a node of the device's binding list, or null (\<open>None\<close>).
\<close>

record Buffer_S =
  bufobj :: GLuint
  vbo :: "nat option"
  size_bytes :: size_t

text \<open>
  \<^verbatim>\<open>
  void RenderDeviceImpl::writeBuffer(Buffer buffer, size_t offset, size_t size, const void *data)
  {
      if(offset + size > buffer->size)
          return;
      glBindBuffer(GL_COPY_READ_BUFFER, buffer->bufobj);
      glBufferSubData(GL_COPY_READ_BUFFER, static_cast<GLintptr>(offset),
                      static_cast<GLsizeiptr>(size), data);
  }
  \<close>
\<close>

definition RenderDeviceImpl_writeBuffer :: "Buffer_S \<Rightarrow> size_t \<Rightarrow> size_t \<Rightarrow> ptr \<Rightarrow> gl_call list" where
  "RenderDeviceImpl_writeBuffer buffer offset sz data =
     (if offset + sz > size_bytes buffer then []
      else [GlBindBuffer GL_COPY_READ_BUFFER (bufobj buffer),
            GlBufferSubData GL_COPY_READ_BUFFER (sint offset) (sint sz) data])"

text \<open>
  \<^verbatim>\<open>
  bool GLRenderDevice::writeBuffer(Buffer *buffer, size_t offset, size_t size, const void *data)
  {
      if(offset + size >= buffer->size)
          return false;
      glNamedBufferSubData(buffer->bufobj, static_cast<GLintptr>(offset),
                           static_cast<GLsizeiptr>(size), data);
      return true;
  }
  \<close>
\<close>

definition GLRenderDevice_writeBuffer :: "Buffer_S \<Rightarrow> size_t \<Rightarrow> size_t \<Rightarrow> ptr \<Rightarrow> bool \<times> gl_call list" where
  "GLRenderDevice_writeBuffer buffer offset sz data =
     (if offset + sz \<ge> size_bytes buffer then (False, [])
      else (True, [GlNamedBufferSubData (bufobj buffer) (sint offset) (sint sz) data]))"

subsection \<open>Faults\<close>

text \<open>
  Where the C++ has undefined behaviour the model returns a fault (\<open>Inl\<close>) instead of a
  result: a null or dangling pointer is dereferenced, an unsigned division has divisor zero,
  a vector is indexed past its end, or a pointer that was never initialised is followed.
\<close>

datatype fault = NullPointer | DanglingPointer | DivideByZero | OutOfBounds | UninitialisedPointer

subsection \<open>Linked nodes, pipelines and the 3.3 device\<close>

text \<open>
  \<open>struct VertexArray_S { uint32_t index; uint32_t vaobj; uint32_t vbobj; VertexArray_S *next; }\<close>
  and \<open>struct VBOBinding { uint32_t index; bool is_free; VBOBinding *next; }\<close>.
  Nodes live in a heap (a map from addresses to nodes). The \<open>next\<close> pointer of a node is
  written once, when the node is created, and new nodes are only ever put in front of a chain.
  So a chain is the list of the addresses of its nodes, head first, and the empty list is
  \<open>nullptr\<close>; copying a head pointer copies that list, and the nodes stay shared.
\<close>

record VertexArray_S =
  vao_index :: nat
  vaobj :: GLuint
  vbobj :: GLuint

record VBOBinding =
  vbo_index :: nat
  is_free :: bool

text \<open>
  \<open>uvre::VertexAttribType\<close>. The 3.3 variant names three values and has \<open>default\<close> branches
  for the rest; the direct-state-access variant names all eight.
\<close>

datatype VertexAttribType = FLOAT32 | FLOAT64 | SIGNED_INT8 | SIGNED_INT16 | SIGNED_INT32
  | UNSIGNED_INT8 | UNSIGNED_INT16 | UNSIGNED_INT32

text \<open>
  \<open>uvre::VertexAttrib\<close>, in the field order of the initialiser in \<^verbatim>\<open>examples/triangle.cpp\<close>.
  Its declaration is not among the sources; \<open>count\<close> and \<open>offset\<close> are \<open>size_t\<close> here, as the casts
  at their uses and the \<open>offsetof\<close> of the example suggest.
\<close>

record VertexAttrib =
  attrib_id :: nat
  attrib_type :: VertexAttribType
  attrib_count :: size_t
  attrib_offset :: size_t
  attrib_normalized :: bool

text \<open>
  \<open>struct Pipeline_S\<close>, the nested structs flattened. \<open>num_attributes\<close> is the length of
  \<open>attributes\<close>. \<open>vaos\<close> is the chain of vertex-array groups.
\<close>

record Pipeline_S =
  bound_ibo :: GLuint
  bound_vao :: GLuint
  program :: GLuint
  blending_enabled :: bool
  blending_equation :: nat
  blending_sfactor :: nat
  blending_dfactor :: nat
  depth_testing_enabled :: bool
  depth_testing_func :: nat
  face_culling_enabled :: bool
  face_culling_front_face :: nat
  face_culling_cull_face :: nat
  scissor_test :: bool
  index_size :: size_t
  index_type :: nat
  primitive_mode :: nat
  fill_mode :: nat
  vertex_stride :: size_t
  attributes :: "VertexAttrib list"
  vaos :: "nat list"

text \<open>
  \<open>struct Command\<close>: the tag \<open>type\<close> and the union member that belongs to it, together with
  \<open>bind_index\<close> and \<open>tex_target\<close> where the replay reads them. \<open>int\<close> and \<open>int32_t\<close> values are
  integers; the replay passes them on unchanged, except for the base instance of a draw, which
  the driver takes as a \<open>GLuint\<close>.
\<close>

datatype Command =
    SET_SCISSOR int int int int
  | SET_VIEWPORT int int int int
  | SET_CLEAR_DEPTH GLfloat
  | SET_CLEAR_COLOR GLfloat GLfloat GLfloat GLfloat
  | CLEAR nat
  | BIND_PIPELINE Pipeline_S
  | BIND_STORAGE_BUFFER nat GLuint
  | BIND_UNIFORM_BUFFER nat GLuint
  | BIND_INDEX_BUFFER GLuint
  | BIND_VERTEX_BUFFER Buffer_S
  | BIND_SAMPLER nat GLuint
  | BIND_TEXTURE nat nat GLuint
  | BIND_RENDER_TARGET GLuint
  | WRITE_BUFFER GLuint size_t size_t ptr
  | COPY_RENDER_TARGET GLuint GLuint int int int int int int int int nat nat
  | DRAW int int int int
  | IDRAW int int int int int

text \<open>\<open>class CommandListImpl\<close>: the vector \<open>commands\<close> and the count \<open>num_commands\<close>.\<close>

record CommandListImpl =
  commands :: "Command list"
  num_commands :: nat

text \<open>
  \<open>class RenderDeviceImpl\<close>. \<open>onDebugMessage\<close> says whether \<open>create_info.onDebugMessage\<close> is
  set. \<open>max_vbo_bindings\<close> is \<open>int32_t\<close> in the source and is converted to \<open>uint32_t\<close> where it
  divides a slot index, so it is a natural number here. The last four fields are the model's:
  the two heaps, the supply of fresh addresses and object names (what \<open>new\<close> and
  \<open>glGen...\<close> return), and the framebuffer binding the driver reports for
  \<open>GL_FRAMEBUFFER_BINDING\<close>.
\<close>

record RenderDeviceImpl =
  onDebugMessage :: bool
  max_vbo_bindings :: nat
  vbos :: "nat list"
  bound_pipeline :: Pipeline_S
  pipelines :: "Pipeline_S list"
  buffers :: "Buffer_S list"
  vbo_heap :: "nat \<Rightarrow> VBOBinding option"
  vao_heap :: "nat \<Rightarrow> VertexArray_S option"
  next_name :: nat
  framebuffer_binding :: GLuint

subsection \<open>Vertex-array groups\<close>

definition GL_FLOAT :: nat where "GL_FLOAT = 5126"
definition GL_INT :: nat where "GL_INT = 5124"
definition GL_UNSIGNED_INT :: nat where "GL_UNSIGNED_INT = 5125"

fun getAttribType :: "VertexAttribType \<Rightarrow> nat" where
  "getAttribType FLOAT32 = GL_FLOAT"
| "getAttribType SIGNED_INT32 = GL_INT"
| "getAttribType UNSIGNED_INT32 = GL_UNSIGNED_INT"
| "getAttribType _ = 0"

text \<open>
  The body of the loop of \<open>setVertexFormat\<close> for one attribute:
  \<^verbatim>\<open>
  glEnableVertexAttribArray(attrib.id);
  switch(attrib.type) {
      case FLOAT32:
          glVertexAttribFormat(attrib.id, static_cast<GLint>(attrib.count), getAttribType(attrib.type),
                               attrib.normalized ? GL_TRUE : GL_FALSE, static_cast<GLuint>(attrib.offset));
          break;
      case SIGNED_INT32:
      case UNSIGNED_INT32:
          glVertexAttribIFormat(attrib.id, static_cast<GLint>(attrib.count), getAttribType(attrib.type),
                                static_cast<GLuint>(attrib.offset));
          break;
  }
  \<close>
  The switch has no other case: an attribute of another type is enabled and gets no format.
\<close>

definition attribFormat :: "VertexAttrib \<Rightarrow> gl_call list" where
  "attribFormat attrib =
     GlEnableVertexAttribArray (attrib_id attrib)
     # (if attrib_type attrib = FLOAT32
        then [GlVertexAttribFormat (attrib_id attrib) (toGLint (attrib_count attrib))
                (getAttribType (attrib_type attrib)) (attrib_normalized attrib)
                (toGLuint (attrib_offset attrib))]
        else if attrib_type attrib = SIGNED_INT32 \<or> attrib_type attrib = UNSIGNED_INT32
        then [GlVertexAttribIFormat (attrib_id attrib) (toGLint (attrib_count attrib))
                (getAttribType (attrib_type attrib)) (toGLuint (attrib_offset attrib))]
        else [])"

text \<open>
  \<open>setVertexFormat(vao, pipeline)\<close> for a node that is neither null nor the dummy node (every
  call site passes a node it has just created).
\<close>

definition setVertexFormat :: "VertexArray_S \<Rightarrow> Pipeline_S \<Rightarrow> gl_call list" where
  "setVertexFormat vao pipeline =
     GlBindVertexArray (vaobj vao) # concat (map attribFormat (attributes pipeline))"

text \<open>
  The search loop of \<open>getVertexArray\<close>:
  \<^verbatim>\<open>
  for(VertexArray_S *node = *head; node; node = node->next) {
      if(index != node->index)
          continue;
      return node;
  }
  \<close>
  \<open>Inr (Some a)\<close> is the address of the node found, \<open>Inr None\<close> says the loop ran off the end.
\<close>

fun findVertexArray :: "(nat \<Rightarrow> VertexArray_S option) \<Rightarrow> nat list \<Rightarrow> nat \<Rightarrow> fault + nat option" where
  "findVertexArray heap [] idx = Inr None"
| "findVertexArray heap (a # chain) idx =
     (case heap a of
        None \<Rightarrow> Inl DanglingPointer
      | Some node \<Rightarrow> if idx \<noteq> vao_index node then findVertexArray heap chain idx else Inr (Some a))"

text \<open>
  \<^verbatim>\<open>
  static inline VertexArray_S *getVertexArray(VertexArray_S **head, uint32_t index,
                                              const Pipeline_S *pipeline)
  {
      (the search loop)
      VertexArray_S *next = new VertexArray_S;
      next->index = (*head)->index + 1;
      glGenVertexArrays(1, &next->vaobj);
      next->vbobj = 0;
      setVertexFormat(next, pipeline);
      next->next = *head;
      *head = next;
      return next;
  }
  \<close>
  The result is the device (heap and name supply updated), the new value of \<open>*head\<close>, the
  address of the node returned and the calls issued. The new node takes the address
  \<open>next_name\<close> and its vertex array object the name \<open>next_name + 1\<close>.
\<close>

definition getVertexArray ::
  "RenderDeviceImpl \<Rightarrow> nat list \<Rightarrow> nat \<Rightarrow> Pipeline_S
     \<Rightarrow> fault + (RenderDeviceImpl \<times> nat list \<times> nat \<times> gl_call list)" where
  "getVertexArray dev head idx pipeline =
     (case findVertexArray (vao_heap dev) head idx of
        Inl f \<Rightarrow> Inl f
      | Inr (Some a) \<Rightarrow> Inr (dev, head, a, [])
      | Inr None \<Rightarrow>
          (case head of
             [] \<Rightarrow> Inl NullPointer
           | h # _ \<Rightarrow>
               (case vao_heap dev h of
                  None \<Rightarrow> Inl DanglingPointer
                | Some hnode \<Rightarrow>
                    let a = next_name dev;
                        node = \<lparr>vao_index = vao_index hnode + 1, vaobj = next_name dev + 1, vbobj = 0\<rparr>
                    in Inr (dev\<lparr>vao_heap := (vao_heap dev)(a \<mapsto> node), next_name := next_name dev + 2\<rparr>,
                            a # head, a,
                            GlGenVertexArrays (vaobj node) # setVertexFormat node pipeline))))"

subsection \<open>Replaying a command list\<close>

definition GL_FRONT_AND_BACK :: nat where "GL_FRONT_AND_BACK = 1032"
definition GL_TEXTURE0 :: nat where "GL_TEXTURE0 = 33984"

text \<open>
  The case \<open>BIND_PIPELINE\<close> of \<open>submit\<close>, after \<open>bound_pipeline = cmd.pipeline\<close>:
  \<^verbatim>\<open>
  glDisable(GL_BLEND);
  glDisable(GL_DEPTH_TEST);
  glDisable(GL_CULL_FACE);
  glDisable(GL_SCISSOR_TEST);
  if(bound_pipeline.blending.enabled) {
      glEnable(GL_BLEND);
      glBlendEquation(bound_pipeline.blending.equation);
      glBlendFunc(bound_pipeline.blending.sfactor, bound_pipeline.blending.dfactor);
  }
  if(bound_pipeline.depth_testing.enabled) {
      glEnable(GL_DEPTH_TEST);
      glDepthFunc(bound_pipeline.depth_testing.func);
  }
  if(bound_pipeline.face_culling.enabled) {
      glEnable(GL_CULL_FACE);
      glCullFace(bound_pipeline.face_culling.cull_face);
      glFrontFace(bound_pipeline.face_culling.front_face);
  }
  if(bound_pipeline.scissor_test)
      glEnable(GL_SCISSOR_TEST);
  glPolygonMode(GL_FRONT_AND_BACK, bound_pipeline.fill_mode);
  glUseProgram(bound_pipeline.program);
  \<close>
\<close>

definition bindPipeline :: "Pipeline_S \<Rightarrow> gl_call list" where
  "bindPipeline p =
     [GlDisable GL_BLEND, GlDisable GL_DEPTH_TEST, GlDisable GL_CULL_FACE, GlDisable GL_SCISSOR_TEST]
     @ (if blending_enabled p
        then [GlEnable GL_BLEND, GlBlendEquation (blending_equation p),
              GlBlendFunc (blending_sfactor p) (blending_dfactor p)]
        else [])
     @ (if depth_testing_enabled p
        then [GlEnable GL_DEPTH_TEST, GlDepthFunc (depth_testing_func p)]
        else [])
     @ (if face_culling_enabled p
        then [GlEnable GL_CULL_FACE, GlCullFace (face_culling_cull_face p),
              GlFrontFace (face_culling_front_face p)]
        else [])
     @ (if scissor_test p then [GlEnable GL_SCISSOR_TEST] else [])
     @ [GlPolygonMode GL_FRONT_AND_BACK (fill_mode p), GlUseProgram (program p)]"

text \<open>
  The case \<open>BIND_VERTEX_BUFFER\<close> of \<open>submit\<close>:
  \<^verbatim>\<open>
  vaonode = getVertexArray(&bound_pipeline.vaos, cmd.buffer.vbo->index / max_vbo_bindings,
                           &bound_pipeline);
  if(vaonode->vaobj != bound_pipeline.bound_vao) {
      bound_pipeline.bound_vao = vaonode->vaobj;
      glBindVertexArray(vaonode->vaobj);
  }
  if(vaonode->vbobj != cmd.buffer.bufobj) {
      vaonode->vbobj = cmd.buffer.bufobj;
      for(size_t j = 0; j < bound_pipeline.num_attributes; j++)
          glVertexAttribBinding(bound_pipeline.attributes[j].id,
                                cmd.buffer.vbo->index % max_vbo_bindings);
      glBindBuffer(GL_ELEMENT_ARRAY_BUFFER, bound_pipeline.bound_ibo);
  }
  \<close>
\<close>

definition bindVertexBuffer :: "RenderDeviceImpl \<Rightarrow> Buffer_S \<Rightarrow> fault + (RenderDeviceImpl \<times> gl_call list)" where
  "bindVertexBuffer dev buffer =
     (case vbo buffer of
        None \<Rightarrow> Inl NullPointer
      | Some va \<Rightarrow>
      (case vbo_heap dev va of
        None \<Rightarrow> Inl DanglingPointer
      | Some binding \<Rightarrow>
      if max_vbo_bindings dev = 0 then Inl DivideByZero
      else
      (case getVertexArray dev (vaos (bound_pipeline dev))
              (vbo_index binding div max_vbo_bindings dev) (bound_pipeline dev) of
        Inl f \<Rightarrow> Inl f
      | Inr (dev1, head1, a, calls1) \<Rightarrow>
      (case vao_heap dev1 a of
        None \<Rightarrow> Inl DanglingPointer
      | Some vaonode \<Rightarrow>
          let bp1 = (bound_pipeline dev1)\<lparr>vaos := head1\<rparr>;
              rebind = (vaobj vaonode \<noteq> bound_vao bp1);
              bp2 = (if rebind then bp1\<lparr>bound_vao := vaobj vaonode\<rparr> else bp1);
              calls2 = (if rebind then [GlBindVertexArray (vaobj vaonode)] else []);
              rewire = (vbobj vaonode \<noteq> bufobj buffer);
              heap2 = (if rewire then (vao_heap dev1)(a \<mapsto> vaonode\<lparr>vbobj := bufobj buffer\<rparr>)
                       else vao_heap dev1);
              calls3 = (if rewire
                        then map (\<lambda>attrib. GlVertexAttribBinding (attrib_id attrib)
                                             (vbo_index binding mod max_vbo_bindings dev))
                                 (attributes bp2)
                             @ [GlBindBuffer GL_ELEMENT_ARRAY_BUFFER (bound_ibo bp2)]
                        else [])
          in Inr (dev1\<lparr>bound_pipeline := bp2, vao_heap := heap2\<rparr>, calls1 @ calls2 @ calls3)))))"

text \<open>
  One iteration of the loop of \<open>submit\<close>: the \<open>switch(cmd.type)\<close>. There is no case for
  \<open>BIND_STORAGE_BUFFER\<close>, so such a record issues nothing. In the case \<open>IDRAW\<close> the product
  \<open>bound_pipeline.index_size * cmd.draw.e.base_index\<close> is taken in \<open>size_t\<close>, the \<open>int32_t\<close>
  converted first.
\<close>

fun submitCommand :: "RenderDeviceImpl \<Rightarrow> Command \<Rightarrow> fault + (RenderDeviceImpl \<times> gl_call list)" where
  "submitCommand dev (SET_SCISSOR x y w h) = Inr (dev, [GlScissor x y w h])"
| "submitCommand dev (SET_VIEWPORT x y w h) = Inr (dev, [GlViewport x y w h])"
| "submitCommand dev (SET_CLEAR_DEPTH d) = Inr (dev, [GlClearDepth d])"
| "submitCommand dev (SET_CLEAR_COLOR r g b a) = Inr (dev, [GlClearColor r g b a])"
| "submitCommand dev (CLEAR clear_mask) = Inr (dev, [GlClear clear_mask])"
| "submitCommand dev (BIND_PIPELINE pipeline) =
     Inr (dev\<lparr>bound_pipeline := pipeline\<rparr>, bindPipeline pipeline)"
| "submitCommand dev (BIND_STORAGE_BUFFER bind_index object) = Inr (dev, [])"
| "submitCommand dev (BIND_UNIFORM_BUFFER bind_index object) =
     Inr (dev, [GlBindBufferBase GL_UNIFORM_BUFFER bind_index object])"
| "submitCommand dev (BIND_INDEX_BUFFER object) =
     Inr (dev\<lparr>bound_pipeline := (bound_pipeline dev)\<lparr>bound_ibo := object\<rparr>\<rparr>, [])"
| "submitCommand dev (BIND_VERTEX_BUFFER buffer) = bindVertexBuffer dev buffer"
| "submitCommand dev (BIND_SAMPLER bind_index object) = Inr (dev, [GlBindSampler bind_index object])"
| "submitCommand dev (BIND_TEXTURE bind_index tex_target object) =
     Inr (dev, [GlActiveTexture ((GL_TEXTURE0 + bind_index) mod 2 ^ 32),
                GlBindTexture tex_target object])"
| "submitCommand dev (BIND_RENDER_TARGET object) =
     Inr (dev\<lparr>framebuffer_binding := object\<rparr>, [GlBindFramebuffer GL_FRAMEBUFFER object])"
| "submitCommand dev (WRITE_BUFFER buffer offset sz data_ptr) =
     Inr (dev, [GlBindBuffer GL_COPY_READ_BUFFER buffer,
                GlBufferSubData GL_COPY_READ_BUFFER (sint offset) (sint sz) data_ptr])"
| "submitCommand dev (COPY_RENDER_TARGET src dst sx0 sy0 sx1 sy1 dx0 dy0 dx1 dy1 mask_bits filter_mode) =
     (let last_binding = framebuffer_binding dev
      in Inr (dev, [GlBindFramebuffer GL_READ_FRAMEBUFFER src,
                    GlBindFramebuffer GL_DRAW_FRAMEBUFFER dst,
                    GlBlitFramebuffer sx0 sy0 sx1 sy1 dx0 dy0 dx1 dy1 mask_bits filter_mode,
                    GlBindFramebuffer GL_FRAMEBUFFER last_binding]))"
| "submitCommand dev (DRAW vertices instances base_vertex base_instance) =
     Inr (dev, [GlDrawArraysInstancedBaseInstance (primitive_mode (bound_pipeline dev))
                  base_vertex vertices instances (int32_toGLuint base_instance)])"
| "submitCommand dev (IDRAW indices instances base_index base_vertex base_instance) =
     Inr (dev, [GlDrawElementsInstancedBaseVertexBaseInstance (primitive_mode (bound_pipeline dev))
                  indices (index_type (bound_pipeline dev))
                  (index_size (bound_pipeline dev) * word_of_int base_index)
                  instances base_vertex (int32_toGLuint base_instance)])"

text \<open>The loop of \<open>submit\<close> over the records it visits, in order, collecting the calls.\<close>

fun replay :: "RenderDeviceImpl \<Rightarrow> Command list \<Rightarrow> fault + (RenderDeviceImpl \<times> gl_call list)" where
  "replay dev [] = Inr (dev, [])"
| "replay dev (cmd # cmds) =
     (case submitCommand dev cmd of
        Inl f \<Rightarrow> Inl f
      | Inr (dev1, calls1) \<Rightarrow>
          (case replay dev1 cmds of
             Inl f \<Rightarrow> Inl f
           | Inr (dev2, calls2) \<Rightarrow> Inr (dev2, calls1 @ calls2)))"

text \<open>
  \<^verbatim>\<open>
  void RenderDeviceImpl::submit(ICommandList *commands)
  {
      ...
      for(size_t i = 0; i < glcommands->num_commands; i++) {
          const Command &cmd = glcommands->commands[i];
          switch(cmd.type) { ... }
      }
  }
  \<close>
  The loop visits \<open>commands[0]\<close> to \<open>commands[num_commands - 1]\<close>. Indexing the vector past its
  end is a fault.
\<close>

definition submit :: "RenderDeviceImpl \<Rightarrow> CommandListImpl \<Rightarrow> fault + (RenderDeviceImpl \<times> gl_call list)" where
  "submit dev glcommands =
     (if num_commands glcommands \<le> length (commands glcommands)
      then replay dev (take (num_commands glcommands) (commands glcommands))
      else Inl OutOfBounds)"

subsection \<open>Render targets\<close>


record RenderTarget_S =
  fbobj :: GLuint







subsection \<open>Shaders\<close>

datatype ShaderStage = VERTEX | FRAGMENT

text \<open>
  \<open>uvre::ShaderFormat\<close>. The code names \<open>SOURCE_GLSL\<close> and \<open>BINARY_SPIRV\<close>; \<open>OTHER_FORMAT\<close>
  stands for any other value of the enumeration.
\<close>

datatype ShaderFormat = BINARY_SPIRV | SOURCE_GLSL | OTHER_FORMAT nat

datatype DebugMessageLevel = DEBUG | INFO | WARN | ERROR

record ShaderCreateInfo =
  stage :: ShaderStage
  shader_format :: ShaderFormat
  code :: string
  code_ptr :: ptr
  code_size :: size_t

record Shader_S =
  shader :: GLuint
  shader_stage :: ShaderStage

definition GL_VERTEX_SHADER :: nat where "GL_VERTEX_SHADER = 35633"
definition GL_FRAGMENT_SHADER :: nat where "GL_FRAGMENT_SHADER = 35632"

definition endl :: string where "endl = [CHR 0x0A]"

text \<open>
  What the driver answers for a shader it has been asked to compile: the compile status and
  the information log. \<open>GL_INFO_LOG_LENGTH\<close> is 0 when there is no log and counts the
  terminating null character otherwise.
\<close>

definition info_log_length :: "string \<Rightarrow> int" where
  "info_log_length info_log = (if info_log = [] then 0 else int (length info_log) + 1)"

text \<open>
  The head of \<open>RenderDeviceImpl::createShader\<close>: the text written to the string stream before
  the shader object is created.
  \<^verbatim>\<open>
  ss << "#version 330 core" << std::endl;
  ss << "#define _UVRE_ 1" << std::endl;
  switch(info.stage) {
      case ShaderStage::VERTEX:
          stage = GL_VERTEX_SHADER;
          ss << "#define _VERTEX_SHADER_ 1" << std::endl;
          break;
      case ShaderStage::FRAGMENT:
          stage = GL_FRAGMENT_SHADER;
          ss << "#define _FRAGMENT_SHADER_ 1" << std::endl;
          break;
  }
  \<close>
\<close>

fun stageMacro :: "ShaderStage \<Rightarrow> string" where
  "stageMacro VERTEX = ''#define _VERTEX_SHADER_ 1'' @ endl"
| "stageMacro FRAGMENT = ''#define _FRAGMENT_SHADER_ 1'' @ endl"

fun stageEnum :: "ShaderStage \<Rightarrow> nat" where
  "stageEnum VERTEX = GL_VERTEX_SHADER"
| "stageEnum FRAGMENT = GL_FRAGMENT_SHADER"

definition shaderHeader :: "ShaderStage \<Rightarrow> string" where
  "shaderHeader st = ''#version 330 core'' @ endl @ ''#define _UVRE_ 1'' @ endl @ stageMacro st"

text \<open>
  \<^verbatim>\<open>
  uint32_t shobj = glCreateShader(stage);
  switch(info.format) {
      case ShaderFormat::SOURCE_GLSL:
          ss << "#define _GLSL_ 1" << std::endl;
          source = ss.str() + reinterpret_cast<const char *>(info.code);
          source_cstr = source.c_str();
          glShaderSource(shobj, 1, &source_cstr, nullptr);
          glCompileShader(shobj);
          break;
      default:
          glDeleteShader(shobj);
          return nullptr;
  }
  if(create_info.onDebugMessage) {
      glGetShaderiv(shobj, GL_INFO_LOG_LENGTH, &info_log_length);
      if(info_log_length > 1) {
          (read the log)
          msg.level = DebugMessageLevel::INFO;
          msg.text = info_log.c_str();
          create_info.onDebugMessage(msg);
      }
  }
  glGetShaderiv(shobj, GL_COMPILE_STATUS, &status);
  if(!status) {
      glDeleteShader(shobj);
      return nullptr;
  }
  Shader shader(new Shader_S, destroyShader);
  shader->shader = shobj;
  shader->stage = info.stage;
  return shader;
  \<close>
  \<open>compiler\<close> is the driver: from the shader type and the source it is given to the compile
  status and the information log. The result is the device, the handle (null is \<open>None\<close>), the
  calls issued and the messages passed to \<open>onDebugMessage\<close>.
\<close>

definition createShader ::
  "(nat \<Rightarrow> string \<Rightarrow> bool \<times> string) \<Rightarrow> RenderDeviceImpl \<Rightarrow> ShaderCreateInfo
     \<Rightarrow> RenderDeviceImpl \<times> Shader_S option \<times> gl_call list \<times> (DebugMessageLevel \<times> string) list" where
  "createShader compiler dev info =
     (let shobj = next_name dev;
          dev1 = dev\<lparr>next_name := shobj + 1\<rparr>;
          create = [GlCreateShader (stageEnum (stage info)) shobj]
      in case shader_format info of
           SOURCE_GLSL \<Rightarrow>
             let source = shaderHeader (stage info) @ ''#define _GLSL_ 1'' @ endl @ code info;
                 (status, info_log) = compiler (stageEnum (stage info)) source;
                 calls = create @ [GlShaderSource shobj source, GlCompileShader shobj];
                 msgs = (if onDebugMessage dev \<and> info_log_length info_log > 1
                         then [(INFO, info_log)] else [])
             in if \<not> status then (dev1, None, calls @ [GlDeleteShader shobj], msgs)
                else (dev1, Some \<lparr>shader = shobj, shader_stage = stage info\<rparr>, calls, msgs)
         | _ \<Rightarrow> (dev1, None, create @ [GlDeleteShader shobj], []))"

subsection \<open>The 3.3 device: buffers and binding slots\<close>

text \<open>
  \<open>uvre::BufferType\<close> and \<open>uvre::BufferCreateInfo\<close>. The code tests the type against
  \<open>VERTEX_BUFFER\<close> only; \<open>OTHER_BUFFER\<close> stands for any other value of the enumeration.
\<close>

datatype BufferType = VERTEX_BUFFER | OTHER_BUFFER nat

record BufferCreateInfo =
  buffer_type :: BufferType
  buffer_size :: size_t
  buffer_data :: ptr

text \<open>
  The constructor of the device, as far as the model goes: \<open>max_vbo_bindings\<close> is what the
  driver reports, the binding list is the one free node of index 0 (at address 0), no pipeline
  is bound and nothing has been created.
\<close>

definition null_pipeline :: Pipeline_S where
  "null_pipeline =
     \<lparr>bound_ibo = 0, bound_vao = 0, program = 0,
      blending_enabled = False, blending_equation = 0, blending_sfactor = 0, blending_dfactor = 0,
      depth_testing_enabled = False, depth_testing_func = 0,
      face_culling_enabled = False, face_culling_front_face = 0, face_culling_cull_face = 0,
      scissor_test = False, index_size = 0, index_type = 5123, primitive_mode = 4,
      fill_mode = 1, vertex_stride = 0, attributes = [], vaos = []\<rparr>"

definition newRenderDeviceImpl :: "bool \<Rightarrow> nat \<Rightarrow> RenderDeviceImpl" where
  "newRenderDeviceImpl debug max_bindings =
     \<lparr>onDebugMessage = debug, max_vbo_bindings = max_bindings, vbos = [0],
      bound_pipeline = null_pipeline, pipelines = [], buffers = [],
      vbo_heap = [0 \<mapsto> \<lparr>vbo_index = 0, is_free = True\<rparr>], vao_heap = Map.empty,
      next_name = 1, framebuffer_binding = 0\<rparr>"

text \<open>
  The search loop of \<open>getFreeVBOBinding\<close> (3.3 variant):
  \<^verbatim>\<open>
  for(VBOBinding *node = *head; node; node = node->next) {
      if(!node->is_free)
          continue;
      return node;
  }
  \<close>
\<close>

fun findFreeVBOBinding :: "(nat \<Rightarrow> VBOBinding option) \<Rightarrow> nat list \<Rightarrow> fault + nat option" where
  "findFreeVBOBinding heap [] = Inr None"
| "findFreeVBOBinding heap (a # chain) =
     (case heap a of
        None \<Rightarrow> Inl DanglingPointer
      | Some node \<Rightarrow> if \<not> is_free node then findFreeVBOBinding heap chain else Inr (Some a))"

text \<open>
  \<^verbatim>\<open>
  static VBOBinding *getFreeVBOBinding(VBOBinding **head)
  {
      (the search loop)
      VBOBinding *next = new VBOBinding;
      next->index = (*head)->index + 1;
      next->is_free = true;
      next->next = *head;
      *head = next;
      return next;
  }
  \<close>
  The result is the device and the address of the node returned. \<open>index\<close> is \<open>uint32_t\<close>; the
  model counts in the naturals, which agrees with the code as long as fewer than \<open>2 ^ 32\<close> nodes
  exist.
\<close>

definition getFreeVBOBinding :: "RenderDeviceImpl \<Rightarrow> fault + (RenderDeviceImpl \<times> nat)" where
  "getFreeVBOBinding dev =
     (case findFreeVBOBinding (vbo_heap dev) (vbos dev) of
        Inl f \<Rightarrow> Inl f
      | Inr (Some a) \<Rightarrow> Inr (dev, a)
      | Inr None \<Rightarrow>
          (case vbos dev of
             [] \<Rightarrow> Inl NullPointer
           | h # _ \<Rightarrow>
               (case vbo_heap dev h of
                  None \<Rightarrow> Inl DanglingPointer
                | Some hnode \<Rightarrow>
                    let a = next_name dev
                    in Inr (dev\<lparr>vbos := a # vbos dev,
                                 vbo_heap := (vbo_heap dev)(a \<mapsto> \<lparr>vbo_index = vbo_index hnode + 1, is_free = True\<rparr>),
                                 next_name := a + 1\<rparr>, a))))"

text \<open>
  The notification loop of \<open>createBuffer\<close>, over the pipelines still to visit; \<open>idx\<close> is
  \<open>buffer->vbo->index\<close> and \<open>buf\<close> is \<open>buffer->bufobj\<close>:
  \<^verbatim>\<open>
  for(Pipeline_S *pipeline : pipelines) {
      glBindVertexArray(getVertexArray(&pipeline->vaos, buffer->vbo->index / max_vbo_bindings,
                                       pipeline)->vaobj);
      glBindVertexBuffer(buffer->vbo->index % max_vbo_bindings, buffer->bufobj, 0,
                         static_cast<GLsizei>(pipeline->vertex_stride));
  }
  \<close>
  The pipelines come back with their chains as \<open>getVertexArray\<close> has left them.
\<close>

fun notifyPipelines ::
  "RenderDeviceImpl \<Rightarrow> nat \<Rightarrow> GLuint \<Rightarrow> Pipeline_S list
     \<Rightarrow> fault + (RenderDeviceImpl \<times> Pipeline_S list \<times> gl_call list)" where
  "notifyPipelines dev idx buf [] = Inr (dev, [], [])"
| "notifyPipelines dev idx buf (pipeline # rest) =
     (if max_vbo_bindings dev = 0 then Inl DivideByZero
      else
      (case getVertexArray dev (vaos pipeline) (idx div max_vbo_bindings dev) pipeline of
         Inl f \<Rightarrow> Inl f
       | Inr (dev1, head1, a, calls1) \<Rightarrow>
       (case vao_heap dev1 a of
          None \<Rightarrow> Inl DanglingPointer
        | Some node \<Rightarrow>
        (case notifyPipelines dev1 idx buf rest of
           Inl f \<Rightarrow> Inl f
         | Inr (dev2, rest', calls2) \<Rightarrow>
             Inr (dev2, pipeline\<lparr>vaos := head1\<rparr> # rest',
                  calls1 @ [GlBindVertexArray (vaobj node),
                            GlBindVertexBuffer (idx mod max_vbo_bindings dev) buf
                              (toGLsizei (vertex_stride pipeline))] @ calls2)))))"

text \<open>
  \<^verbatim>\<open>
  Buffer RenderDeviceImpl::createBuffer(const BufferCreateInfo &info)
  {
      Buffer buffer(new Buffer_S, std::bind(destroyBuffer, std::placeholders::_1, this));
      glGenBuffers(1, &buffer->bufobj);
      buffer->size = info.size;
      buffer->vbo = nullptr;
      if(info.type == BufferType::VERTEX_BUFFER) {
          buffer->vbo = getFreeVBOBinding(&vbos);
          buffer->vbo->is_free = false;
          (the notification loop)
          buffers.push_back(buffer.get());
      }
      glBindBuffer(GL_COPY_READ_BUFFER, buffer->bufobj);
      glBufferData(GL_COPY_READ_BUFFER, static_cast<GLsizeiptr>(buffer->size), info.data,
                   GL_DYNAMIC_DRAW);
      return buffer;
  }
  \<close>
  A \<open>Buffer_S\<close> object never changes after \<open>createBuffer\<close>, and its \<open>bufobj\<close> is a fresh name,
  so the object is identified with its record: two pointers are equal if the records are.
\<close>

definition createBuffer ::
  "RenderDeviceImpl \<Rightarrow> BufferCreateInfo \<Rightarrow> fault + (RenderDeviceImpl \<times> Buffer_S \<times> gl_call list)" where
  "createBuffer dev info =
     (let name = next_name dev;
          dev0 = dev\<lparr>next_name := name + 1\<rparr>;
          upload = [GlBindBuffer GL_COPY_READ_BUFFER name,
                    GlBufferData GL_COPY_READ_BUFFER (sint (buffer_size info)) (buffer_data info)]
      in if buffer_type info = VERTEX_BUFFER
         then
           (case getFreeVBOBinding dev0 of
              Inl f \<Rightarrow> Inl f
            | Inr (dev1, a) \<Rightarrow>
            (case vbo_heap dev1 a of
               None \<Rightarrow> Inl DanglingPointer
             | Some node \<Rightarrow>
                 let dev2 = dev1\<lparr>vbo_heap := (vbo_heap dev1)(a \<mapsto> node\<lparr>is_free := False\<rparr>)\<rparr>
                 in (case notifyPipelines dev2 (vbo_index node) name (pipelines dev2) of
                       Inl f \<Rightarrow> Inl f
                     | Inr (dev3, pipelines', calls) \<Rightarrow>
                         let buffer = \<lparr>bufobj = name, vbo = Some a, size_bytes = buffer_size info\<rparr>
                         in Inr (dev3\<lparr>pipelines := pipelines', buffers := buffers dev3 @ [buffer]\<rparr>,
                                 buffer, GlGenBuffers name # calls @ upload))))
         else Inr (dev0, \<lparr>bufobj = name, vbo = None, size_bytes = buffer_size info\<rparr>,
                   GlGenBuffers name # upload))"

text \<open>
  \<^verbatim>\<open>
  static void destroyBuffer(Buffer_S *buffer, RenderDeviceImpl *device)
  {
      for(auto it = device->buffers.cbegin(); it != device->buffers.cend(); it++) {
          if(*it != buffer)
              continue;
          device->buffers.erase(it);
          buffer->vbo->is_free = true;
          break;
      }
      glDeleteBuffers(1, &buffer->bufobj);
      delete buffer;
  }
  \<close>
\<close>

definition destroyBuffer :: "RenderDeviceImpl \<Rightarrow> Buffer_S \<Rightarrow> fault + (RenderDeviceImpl \<times> gl_call list)" where
  "destroyBuffer dev buffer =
     (if buffer \<in> set (buffers dev)
      then (case vbo buffer of
              None \<Rightarrow> Inl NullPointer
            | Some a \<Rightarrow>
                (case vbo_heap dev a of
                   None \<Rightarrow> Inl DanglingPointer
                 | Some node \<Rightarrow>
                     Inr (dev\<lparr>buffers := remove1 buffer (buffers dev),
                              vbo_heap := (vbo_heap dev)(a \<mapsto> node\<lparr>is_free := True\<rparr>)\<rparr>,
                          [GlDeleteBuffers (bufobj buffer)])))
      else Inr (dev, [GlDeleteBuffers (bufobj buffer)]))"

subsection \<open>The 3.3 device: pipelines\<close>

text \<open>
  The enumerations of \<open>uvre::PipelineCreateInfo\<close> and their OpenGL values (\<open>BLEND_MIN\<close> and
  \<open>BLEND_MAX\<close> are \<open>BlendEquation::MIN\<close> and \<open>BlendEquation::MAX\<close>). The \<open>default\<close>
  branches of the switches answer for values outside the enumerations, which the datatypes
  do not have. The cull flags are the three tests \<open>flags & CULL_CLOCKWISE\<close>,
  \<open>flags & CULL_BACK\<close> and \<open>flags & CULL_FRONT\<close>.
\<close>

datatype BlendEquation = ADD | SUBTRACT | REVERSE_SUBTRACT | BLEND_MIN | BLEND_MAX

datatype BlendFunc = ZERO | ONE | SRC_COLOR | ONE_MINUS_SRC_COLOR | SRC_ALPHA | ONE_MINUS_SRC_ALPHA
  | DST_COLOR | ONE_MINUS_DST_COLOR | DST_ALPHA | ONE_MINUS_DST_ALPHA

datatype DepthFunc = NEVER | ALWAYS | EQUAL | NOT_EQUAL | LESS | LESS_OR_EQUAL | GREATER
  | GREATER_OR_EQUAL

datatype IndexType = INDEX16 | INDEX32

datatype PrimitiveMode = POINTS | LINES | LINE_STRIP | LINE_LOOP | TRIANGLES | TRIANGLE_STRIP
  | TRIANGLE_FAN

datatype FillMode = FILLED | FILL_POINTS | WIREFRAME

fun getBlendEquation :: "BlendEquation \<Rightarrow> nat" where
  "getBlendEquation ADD = 32774"
| "getBlendEquation SUBTRACT = 32778"
| "getBlendEquation REVERSE_SUBTRACT = 32779"
| "getBlendEquation BLEND_MIN = 32775"
| "getBlendEquation BLEND_MAX = 32776"

fun getBlendFunc :: "BlendFunc \<Rightarrow> nat" where
  "getBlendFunc ZERO = 0"
| "getBlendFunc ONE = 1"
| "getBlendFunc SRC_COLOR = 768"
| "getBlendFunc ONE_MINUS_SRC_COLOR = 769"
| "getBlendFunc SRC_ALPHA = 770"
| "getBlendFunc ONE_MINUS_SRC_ALPHA = 771"
| "getBlendFunc DST_COLOR = 774"
| "getBlendFunc ONE_MINUS_DST_COLOR = 775"
| "getBlendFunc DST_ALPHA = 772"
| "getBlendFunc ONE_MINUS_DST_ALPHA = 773"

fun getDepthFunc :: "DepthFunc \<Rightarrow> nat" where
  "getDepthFunc NEVER = 512"
| "getDepthFunc ALWAYS = 519"
| "getDepthFunc EQUAL = 514"
| "getDepthFunc NOT_EQUAL = 517"
| "getDepthFunc LESS = 513"
| "getDepthFunc LESS_OR_EQUAL = 515"
| "getDepthFunc GREATER = 516"
| "getDepthFunc GREATER_OR_EQUAL = 518"

fun getIndexSize :: "IndexType \<Rightarrow> size_t" where
  "getIndexSize INDEX16 = 2"
| "getIndexSize INDEX32 = 4"

fun getIndexType :: "IndexType \<Rightarrow> nat" where
  "getIndexType INDEX16 = 5123"
| "getIndexType INDEX32 = 5125"

fun getPrimitiveType :: "PrimitiveMode \<Rightarrow> nat" where
  "getPrimitiveType POINTS = 0"
| "getPrimitiveType LINES = 1"
| "getPrimitiveType LINE_STRIP = 3"
| "getPrimitiveType LINE_LOOP = 2"
| "getPrimitiveType TRIANGLES = 4"
| "getPrimitiveType TRIANGLE_STRIP = 5"
| "getPrimitiveType TRIANGLE_FAN = 6"

definition getCullFace :: "bool \<Rightarrow> bool \<Rightarrow> nat" where
  "getCullFace back front =
     (if back \<and> front then 1032 else if back then 1029 else if front then 1028 else 1029)"

fun getFillMode :: "FillMode \<Rightarrow> nat" where
  "getFillMode FILLED = 6914"
| "getFillMode FILL_POINTS = 6912"
| "getFillMode WIREFRAME = 6913"

record 's PipelineCreateInfo =
  info_blending_enabled :: bool
  info_blending_equation :: BlendEquation
  info_blending_sfactor :: BlendFunc
  info_blending_dfactor :: BlendFunc
  info_depth_testing_enabled :: bool
  info_depth_testing_func :: DepthFunc
  info_face_culling_enabled :: bool
  cull_clockwise :: bool
  cull_back :: bool
  cull_front :: bool
  info_index_type :: IndexType
  info_primitive_mode :: PrimitiveMode
  info_fill_mode :: FillMode
  info_vertex_stride :: size_t
  vertex_attribs :: "VertexAttrib list"
  shaders :: "'s option list"

text \<open>
  What \<open>createPipeline\<close> leaves uninitialised and later code reads: \<open>new Pipeline_S\<close> and
  \<open>new VertexArray_S\<close> initialise nothing, \<open>createPipeline\<close> never assigns
  \<open>pipeline->scissor_test\<close> nor the \<open>vbobj\<close> of the first vertex-array group. The values these
  fields happen to hold are an argument of the model.
\<close>

record Indeterminate =
  uninit_scissor_test :: bool
  uninit_vbobj :: GLuint

text \<open>
  The loop \<open>for(i < info.num_shaders) glAttachShader(pipeline->program, info.shaders[i]->shader)\<close>.
\<close>

fun attachShaders :: "GLuint \<Rightarrow> Shader_S option list \<Rightarrow> fault + gl_call list" where
  "attachShaders pr [] = Inr []"
| "attachShaders pr (sh # rest) =
     (case sh of
        None \<Rightarrow> Inl NullPointer
      | Some s \<Rightarrow>
          (case attachShaders pr rest of
             Inl f \<Rightarrow> Inl f
           | Inr calls \<Rightarrow> Inr (GlAttachShader pr (shader s) # calls)))"

text \<open>
  The notification loop of \<open>createPipeline\<close>, over the buffers still to visit:
  \<^verbatim>\<open>
  for(Buffer_S *buffer : buffers) {
      glBindVertexArray(getVertexArray(&pipeline->vaos, buffer->vbo->index / max_vbo_bindings,
                                       pipeline.get())->vaobj);
      glBindVertexBuffer(buffer->vbo->index % max_vbo_bindings, buffer->bufobj, 0,
                         static_cast<GLsizei>(pipeline->vertex_stride));
  }
  \<close>
\<close>

fun notifyBuffers ::
  "RenderDeviceImpl \<Rightarrow> Pipeline_S \<Rightarrow> Buffer_S list
     \<Rightarrow> fault + (RenderDeviceImpl \<times> Pipeline_S \<times> gl_call list)" where
  "notifyBuffers dev pipeline [] = Inr (dev, pipeline, [])"
| "notifyBuffers dev pipeline (buffer # rest) =
     (case vbo buffer of
        None \<Rightarrow> Inl NullPointer
      | Some va \<Rightarrow>
      (case vbo_heap dev va of
         None \<Rightarrow> Inl DanglingPointer
       | Some binding \<Rightarrow>
       if max_vbo_bindings dev = 0 then Inl DivideByZero
       else
       (case getVertexArray dev (vaos pipeline) (vbo_index binding div max_vbo_bindings dev) pipeline of
          Inl f \<Rightarrow> Inl f
        | Inr (dev1, head1, a, calls1) \<Rightarrow>
        (case vao_heap dev1 a of
           None \<Rightarrow> Inl DanglingPointer
         | Some node \<Rightarrow>
         (case notifyBuffers dev1 (pipeline\<lparr>vaos := head1\<rparr>) rest of
            Inl f \<Rightarrow> Inl f
          | Inr (dev2, pipeline2, calls2) \<Rightarrow>
              Inr (dev2, pipeline2,
                   calls1 @ [GlBindVertexArray (vaobj node),
                             GlBindVertexBuffer (vbo_index binding mod max_vbo_bindings dev)
                               (bufobj buffer) (toGLsizei (vertex_stride pipeline))] @ calls2))))))"

text \<open>
  \<open>RenderDeviceImpl::createPipeline\<close>: the program is created, the shaders attached and the
  program linked; the log goes to the debug callback as in \<open>createShader\<close>. \<open>linked\<close> is the
  driver's answer, the link status and the log. On a link failure the function runs
  \<^verbatim>\<open>
  pipeline = nullptr;
  return nullptr;
  \<close>
  and the assignment runs the deleter \<open>destroyPipeline\<close> on an object whose \<open>vaos\<close> has not been
  initialised: it follows that pointer, which is a fault. Otherwise the fields are filled in
  from the info, the first vertex-array group is created,
  \<^verbatim>\<open>
  pipeline->vaos = new VertexArray_S;
  pipeline->vaos->index = 0;
  glGenVertexArrays(1, &pipeline->vaos->vaobj);
  pipeline->vaos->next = nullptr;
  setVertexFormat(pipeline->vaos, pipeline.get());
  \<close>
  the buffers are notified, and the pipeline is put at the end of \<open>pipelines\<close>. The program
  takes the name \<open>next_name\<close>, the node the address \<open>next_name + 1\<close> and its vertex array object
  the name \<open>next_name + 2\<close>.
\<close>

definition createPipeline ::
  "bool \<times> string \<Rightarrow> Indeterminate \<Rightarrow> RenderDeviceImpl \<Rightarrow> Shader_S PipelineCreateInfo
     \<Rightarrow> fault + (RenderDeviceImpl \<times> Pipeline_S \<times> gl_call list \<times> (DebugMessageLevel \<times> string) list)" where
  "createPipeline linked garbage dev info =
     (let pr = next_name dev in
      case attachShaders pr (shaders info) of
        Inl f \<Rightarrow> Inl f
      | Inr attach \<Rightarrow>
          if \<not> fst linked then Inl UninitialisedPointer
          else
            let msgs = (if onDebugMessage dev \<and> info_log_length (snd linked) > 1
                        then [(INFO, snd linked)] else []);
                a = pr + 1;
                node = \<lparr>vao_index = 0, vaobj = pr + 2, vbobj = uninit_vbobj garbage\<rparr>;
                pipeline =
                  \<lparr>bound_ibo = 0, bound_vao = 0, program = pr,
                   blending_enabled = info_blending_enabled info,
                   blending_equation = getBlendEquation (info_blending_equation info),
                   blending_sfactor = getBlendFunc (info_blending_sfactor info),
                   blending_dfactor = getBlendFunc (info_blending_dfactor info),
                   depth_testing_enabled = info_depth_testing_enabled info,
                   depth_testing_func = getDepthFunc (info_depth_testing_func info),
                   face_culling_enabled = info_face_culling_enabled info,
                   face_culling_front_face = (if cull_clockwise info then 2304 else 2305),
                   face_culling_cull_face = getCullFace (cull_back info) (cull_front info),
                   scissor_test = uninit_scissor_test garbage,
                   index_size = getIndexSize (info_index_type info),
                   index_type = getIndexType (info_index_type info),
                   primitive_mode = getPrimitiveType (info_primitive_mode info),
                   fill_mode = getFillMode (info_fill_mode info),
                   vertex_stride = info_vertex_stride info,
                   attributes = vertex_attribs info,
                   vaos = [a]\<rparr>;
                dev1 = dev\<lparr>vao_heap := (vao_heap dev)(a \<mapsto> node), next_name := pr + 3\<rparr>;
                calls1 = GlCreateProgram pr # attach @ [GlLinkProgram pr]
                         @ GlGenVertexArrays (vaobj node) # setVertexFormat node pipeline
            in (case notifyBuffers dev1 pipeline (buffers dev1) of
                  Inl f \<Rightarrow> Inl f
                | Inr (dev2, pipeline2, calls2) \<Rightarrow>
                    Inr (dev2\<lparr>pipelines := pipelines dev2 @ [pipeline2]\<rparr>, pipeline2,
                         calls1 @ calls2, msgs)))"

text \<open>
  \<^verbatim>\<open>
  static void destroyPipeline(Pipeline_S *pipeline, RenderDeviceImpl *device)
  {
      (erase the first entry of device->pipelines that is this pipeline)
      for(VertexArray_S *node = pipeline->vaos; node;) {
          VertexArray_S *next = node->next;
          glDeleteVertexArrays(1, &node->vaobj);
          delete node;
          node = next;
      }
      glDeleteProgram(pipeline->program);
      delete pipeline;
  }
  \<close>
  A pipeline object changes after its creation (its chain grows), so it is identified by its
  \<open>program\<close>, a fresh name: the object destroyed is the entry of \<open>pipelines\<close> with the program
  of the handle.
\<close>

fun freeVertexArrays ::
  "(nat \<Rightarrow> VertexArray_S option) \<Rightarrow> nat list \<Rightarrow> fault + ((nat \<Rightarrow> VertexArray_S option) \<times> gl_call list)" where
  "freeVertexArrays heap [] = Inr (heap, [])"
| "freeVertexArrays heap (a # chain) =
     (case heap a of
        None \<Rightarrow> Inl DanglingPointer
      | Some node \<Rightarrow>
          (case freeVertexArrays (heap(a := None)) chain of
             Inl f \<Rightarrow> Inl f
           | Inr (heap', calls) \<Rightarrow> Inr (heap', GlDeleteVertexArrays (vaobj node) # calls)))"

fun erasePipeline :: "GLuint \<Rightarrow> Pipeline_S list \<Rightarrow> Pipeline_S list" where
  "erasePipeline pr [] = []"
| "erasePipeline pr (p # ps) = (if program p \<noteq> pr then p # erasePipeline pr ps else ps)"

definition destroyPipeline :: "RenderDeviceImpl \<Rightarrow> Pipeline_S \<Rightarrow> fault + (RenderDeviceImpl \<times> gl_call list)" where
  "destroyPipeline dev handle =
     (let object = (case find (\<lambda>p. program p = program handle) (pipelines dev) of
                      None \<Rightarrow> handle | Some p \<Rightarrow> p)
      in case freeVertexArrays (vao_heap dev) (vaos object) of
           Inl f \<Rightarrow> Inl f
         | Inr (heap', calls) \<Rightarrow>
             Inr (dev\<lparr>pipelines := erasePipeline (program handle) (pipelines dev), vao_heap := heap'\<rparr>,
                  calls @ [GlDeleteProgram (program object)]))"

text \<open>
  The calls an application makes to create and destroy buffers and pipelines, and a run of
  them on the device.
\<close>

datatype device_call =
    CreateBuffer BufferCreateInfo
  | DestroyBuffer Buffer_S
  | CreatePipeline "bool \<times> string" Indeterminate "Shader_S PipelineCreateInfo"
  | DestroyPipeline Pipeline_S

fun deviceCall :: "RenderDeviceImpl \<Rightarrow> device_call \<Rightarrow> fault + (RenderDeviceImpl \<times> gl_call list)" where
  "deviceCall dev (CreateBuffer info) =
     (case createBuffer dev info of Inl f \<Rightarrow> Inl f | Inr (dev', buffer, calls) \<Rightarrow> Inr (dev', calls))"
| "deviceCall dev (DestroyBuffer buffer) = destroyBuffer dev buffer"
| "deviceCall dev (CreatePipeline linked garbage info) =
     (case createPipeline linked garbage dev info of
        Inl f \<Rightarrow> Inl f
      | Inr (dev', pipeline, calls, msgs) \<Rightarrow> Inr (dev', calls))"
| "deviceCall dev (DestroyPipeline pipeline) = destroyPipeline dev pipeline"

fun deviceCalls :: "RenderDeviceImpl \<Rightarrow> device_call list \<Rightarrow> fault + (RenderDeviceImpl \<times> gl_call list)" where
  "deviceCalls dev [] = Inr (dev, [])"
| "deviceCalls dev (c # cs) =
     (case deviceCall dev c of
        Inl f \<Rightarrow> Inl f
      | Inr (dev1, calls1) \<Rightarrow>
          (case deviceCalls dev1 cs of
             Inl f \<Rightarrow> Inl f
           | Inr (dev2, calls2) \<Rightarrow> Inr (dev2, calls1 @ calls2)))"

subsection \<open>The direct-state-access device\<close>

text \<open>
  \<open>class GLRenderDevice\<close>, as far as the modelled functions use it. Its header is not among
  the sources; the fields are those the functions read and write. \<open>Buffer\<close> has the fields of
  \<open>Buffer_S\<close>, \<open>RenderTarget\<close> those of \<open>RenderTarget_S\<close>. The last two fields are the model's:
  the heap of binding nodes and the supply of fresh addresses and object names.
\<close>

record GLShader =
  prog :: GLuint
  prog_stage :: ShaderStage
  stage_bit :: nat

record GLPipeline =
  dsa_vaobj :: GLuint
  ppobj :: GLuint
  dsa_blending_enabled :: bool
  dsa_blending_equation :: nat
  dsa_blending_sfactor :: nat
  dsa_blending_dfactor :: nat
  dsa_depth_testing_enabled :: bool
  dsa_depth_testing_func :: nat
  dsa_face_culling_enabled :: bool
  dsa_face_culling_front_face :: nat
  dsa_face_culling_cull_face :: nat
  dsa_index_type :: nat
  dsa_primitive_mode :: nat
  dsa_fill_mode :: nat
  dsa_vertex_stride :: size_t
  dsa_attributes :: "VertexAttrib list"

record GLRenderDevice =
  onMessage :: bool
  dsa_vbos :: "nat list"
  dsa_shaders :: "GLShader list"
  dsa_pipelines :: "GLPipeline list"
  dsa_buffers :: "Buffer_S list"
  dsa_rendertargets :: "RenderTarget_S list"
  dsa_vbo_heap :: "nat \<Rightarrow> VBOBinding option"
  dsa_next_name :: nat


definition GL_VERTEX_SHADER_BIT :: nat where "GL_VERTEX_SHADER_BIT = 1"
definition GL_FRAGMENT_SHADER_BIT :: nat where "GL_FRAGMENT_SHADER_BIT = 2"

fun dsaStageMacro :: "ShaderStage \<Rightarrow> string" where
  "dsaStageMacro VERTEX = ''#define VERTEX_SHADER 1'' @ endl"
| "dsaStageMacro FRAGMENT = ''#define FRAGMENT_SHADER 1'' @ endl"

fun stageBit :: "ShaderStage \<Rightarrow> nat" where
  "stageBit VERTEX = GL_VERTEX_SHADER_BIT"
| "stageBit FRAGMENT = GL_FRAGMENT_SHADER_BIT"

definition dsaShaderHeader :: "ShaderStage \<Rightarrow> string" where
  "dsaShaderHeader st = ''#version 460 core'' @ endl @ ''#define UVRE_SOURCE 1'' @ endl @ dsaStageMacro st"

text \<open>
  \<open>GLRenderDevice::createShader\<close>. The two formats it accepts:
  \<^verbatim>\<open>
  case ShaderFormat::BINARY_SPIRV:
      glShaderBinary(1, &shobj, GL_SHADER_BINARY_FORMAT_SPIR_V, info.code,
                     static_cast<GLsizei>(info.code_size));
      glSpecializeShader(shobj, "main", 0, nullptr, nullptr);
      break;
  case ShaderFormat::SOURCE_GLSL:
      source = ss.str() + reinterpret_cast<const char *>(info.code);
      source_cstr = source.c_str();
      glShaderSource(shobj, 1, &source_cstr, nullptr);
      glCompileShader(shobj);
      break;
  default:
      glDeleteShader(shobj);
      return nullptr;
  \<close>
  The log is passed to \<open>info.onMessage\<close> as in the 3.3 variant (there is no level). After a
  successful compilation the shader is linked into a separable program:
  \<^verbatim>\<open>
  uint32_t prog = glCreateProgram();
  glProgramParameteri(prog, GL_PROGRAM_SEPARABLE, GL_TRUE);
  glAttachShader(prog, shobj);
  glLinkProgram(prog);
  glDeleteShader(shobj);
  (the log of the program is passed to info.onMessage in the same way)
  glGetProgramiv(prog, GL_LINK_STATUS, &status);
  if(!status) {
      glDeleteProgram(prog);
      return nullptr;
  }
  Shader *shader = new Shader;
  shader->prog = prog;
  shader->stage = info.stage;
  shader->stage_bit = stage_bit;
  shaders.push_back(shader);
  return shader;
  \<close>
  \<open>compiler\<close> answers for \<open>glCompileShader\<close>, \<open>specializer\<close> for \<open>glSpecializeShader\<close> and
  \<open>linker\<close> for \<open>glLinkProgram\<close>, each with a status and an information log.
\<close>

definition GLRenderDevice_createShader ::
  "(nat \<Rightarrow> string \<Rightarrow> bool \<times> string) \<Rightarrow> (nat \<Rightarrow> ptr \<Rightarrow> int \<Rightarrow> bool \<times> string)
     \<Rightarrow> (GLuint \<Rightarrow> bool \<times> string) \<Rightarrow> GLRenderDevice \<Rightarrow> ShaderCreateInfo
     \<Rightarrow> GLRenderDevice \<times> GLShader option \<times> gl_call list \<times> string list" where
  "GLRenderDevice_createShader compiler specializer linker dev info =
     (let shobj = dsa_next_name dev;
          dev1 = dev\<lparr>dsa_next_name := shobj + 1\<rparr>;
          create = [GlCreateShader (stageEnum (stage info)) shobj];
          source = dsaShaderHeader (stage info) @ code info;
          compiled =
            (case shader_format info of
               BINARY_SPIRV \<Rightarrow>
                 Some (specializer (stageEnum (stage info)) (code_ptr info) (toGLsizei (code_size info)),
                       [GlShaderBinary shobj (code_ptr info) (toGLsizei (code_size info)),
                        GlSpecializeShader shobj])
             | SOURCE_GLSL \<Rightarrow>
                 Some (compiler (stageEnum (stage info)) source,
                       [GlShaderSource shobj source, GlCompileShader shobj])
             | OTHER_FORMAT _ \<Rightarrow> None)
      in case compiled of
           None \<Rightarrow> (dev1, None, create @ [GlDeleteShader shobj], [])
         | Some ((status, info_log), calls1) \<Rightarrow>
             let msgs1 = (if onMessage dev \<and> info_log_length info_log > 1 then [info_log] else [])
             in if \<not> status then (dev1, None, create @ calls1 @ [GlDeleteShader shobj], msgs1)
                else
                  let pr = shobj + 1;
                      dev2 = dev1\<lparr>dsa_next_name := pr + 1\<rparr>;
                      calls2 = [GlCreateProgram pr, GlProgramSeparable pr, GlAttachShader pr shobj,
                                GlLinkProgram pr, GlDeleteShader shobj];
                      (link_status, link_log) = linker pr;
                      msgs2 = (if onMessage dev \<and> info_log_length link_log > 1 then [link_log] else [])
                  in if \<not> link_status
                     then (dev2, None, create @ calls1 @ calls2 @ [GlDeleteProgram pr], msgs1 @ msgs2)
                     else let sh = \<lparr>prog = pr, prog_stage = stage info, stage_bit = stageBit (stage info)\<rparr>
                          in (dev2\<lparr>dsa_shaders := dsa_shaders dev2 @ [sh]\<rparr>, Some sh,
                              create @ calls1 @ calls2, msgs1 @ msgs2))"

subsection \<open>The direct-state-access device: buffers, binding slots and pipelines\<close>

text \<open>
  The constructor: the binding list is the one free node of index 0 (at address 0); the buffer
  \<open>idbo\<close> it creates takes the first name.
\<close>

definition newGLRenderDevice :: "bool \<Rightarrow> GLRenderDevice" where
  "newGLRenderDevice debug =
     \<lparr>onMessage = debug, dsa_vbos = [0], dsa_shaders = [], dsa_pipelines = [], dsa_buffers = [],
      dsa_rendertargets = [], dsa_vbo_heap = [0 \<mapsto> \<lparr>vbo_index = 0, is_free = True\<rparr>],
      dsa_next_name = 2\<rparr>"

text \<open>
  \<^verbatim>\<open>
  static VBOBinding *getFreeVBOBinding(VBOBinding **begin)
  {
      for(VBOBinding *binding = *begin; binding; binding = binding->next) {
          if(binding->is_free) {
              // Bullseye
              return binding;
          }
          // Create a new binding
          // TODO: check for max bindings?
          if(!binding->next) {
              VBOBinding *next = new VBOBinding;
              next->index = binding->index + 1;
              next->is_free = true;
              next->next = *begin;
              *begin = next;
              return next;
          }
      }
      // Oh no cringe!
      return nullptr;
  }
  \<close>
  The loop, over the nodes still to visit: the result is the device and the pointer returned
  (null is \<open>None\<close>). The new node is made from \<open>binding\<close>, the last node of the list, and put in
  front of the whole list.
\<close>

fun GLRenderDevice_findFreeVBOBinding ::
  "GLRenderDevice \<Rightarrow> nat list \<Rightarrow> fault + (GLRenderDevice \<times> nat option)" where
  "GLRenderDevice_findFreeVBOBinding dev [] = Inr (dev, None)"
| "GLRenderDevice_findFreeVBOBinding dev (a # chain) =
     (case dsa_vbo_heap dev a of
        None \<Rightarrow> Inl DanglingPointer
      | Some binding \<Rightarrow>
          if is_free binding then Inr (dev, Some a)
          else if chain = []
          then (let n = dsa_next_name dev
                in Inr (dev\<lparr>dsa_vbos := n # dsa_vbos dev,
                             dsa_vbo_heap := (dsa_vbo_heap dev)(n \<mapsto> \<lparr>vbo_index = vbo_index binding + 1, is_free = True\<rparr>),
                             dsa_next_name := n + 1\<rparr>, Some n))
          else GLRenderDevice_findFreeVBOBinding dev chain)"

definition GLRenderDevice_getFreeVBOBinding :: "GLRenderDevice \<Rightarrow> fault + (GLRenderDevice \<times> nat option)" where
  "GLRenderDevice_getFreeVBOBinding dev = GLRenderDevice_findFreeVBOBinding dev (dsa_vbos dev)"

text \<open>
  \<^verbatim>\<open>
  Buffer *GLRenderDevice::createBuffer(const BufferInfo &info)
  {
      Buffer *buffer = new Buffer;
      glCreateBuffers(1, &buffer->bufobj);
      buffer->size = info.size;
      buffer->vbo = nullptr;
      if(info.type == BufferType::VERTEX_BUFFER) {
          buffer->vbo = getFreeVBOBinding(&vbos);
          buffer->vbo->is_free = false;
          for(Pipeline *pipeline : pipelines) {
              glVertexArrayVertexBuffer(pipeline->vaobj, buffer->vbo->index, buffer->bufobj, 0,
                                        static_cast<GLsizei>(pipeline->vertex_stride));
          }
      }
      if(buffer->size) {
          glNamedBufferData(buffer->bufobj, static_cast<GLsizeiptr>(buffer->size), info.data,
                            GL_DYNAMIC_DRAW);
      }
      buffers.push_back(buffer);
      return buffer;
  }
  \<close>
\<close>

definition GLRenderDevice_createBuffer ::
  "GLRenderDevice \<Rightarrow> BufferCreateInfo \<Rightarrow> fault + (GLRenderDevice \<times> Buffer_S \<times> gl_call list)" where
  "GLRenderDevice_createBuffer dev info =
     (let name = dsa_next_name dev;
          dev0 = dev\<lparr>dsa_next_name := name + 1\<rparr>;
          allocate = (if buffer_size info \<noteq> 0
                      then [GlNamedBufferData name (sint (buffer_size info)) (buffer_data info)]
                      else [])
      in if buffer_type info = VERTEX_BUFFER
         then
           (case GLRenderDevice_getFreeVBOBinding dev0 of
              Inl f \<Rightarrow> Inl f
            | Inr (dev1, None) \<Rightarrow> Inl NullPointer
            | Inr (dev1, Some a) \<Rightarrow>
            (case dsa_vbo_heap dev1 a of
               None \<Rightarrow> Inl DanglingPointer
             | Some binding \<Rightarrow>
                 let buffer = \<lparr>bufobj = name, vbo = Some a, size_bytes = buffer_size info\<rparr>
                 in Inr (dev1\<lparr>dsa_vbo_heap := (dsa_vbo_heap dev1)(a \<mapsto> binding\<lparr>is_free := False\<rparr>),
                               dsa_buffers := dsa_buffers dev1 @ [buffer]\<rparr>,
                         buffer,
                         GlCreateBuffers name
                         # map (\<lambda>pipeline. GlVertexArrayVertexBuffer (dsa_vaobj pipeline) (vbo_index binding)
                                             name (toGLsizei (dsa_vertex_stride pipeline)))
                               (dsa_pipelines dev1)
                         @ allocate)))
         else (let buffer = \<lparr>bufobj = name, vbo = None, size_bytes = buffer_size info\<rparr>
               in Inr (dev0\<lparr>dsa_buffers := dsa_buffers dev0 @ [buffer]\<rparr>, buffer,
                       GlCreateBuffers name # allocate)))"

text \<open>
  \<^verbatim>\<open>
  void GLRenderDevice::destroyBuffer(Buffer *buffer)
  {
      for(auto it = buffers.cbegin(); it != buffers.cend(); it++) {
          if(*it == buffer) {
              buffers.erase(it);
              glDeleteBuffers(1, &buffer->bufobj);
              if(buffer->vbo)
                  buffer->vbo->is_free = true;
              delete buffer;
              return;
          }
      }
  }
  \<close>
\<close>

definition GLRenderDevice_destroyBuffer :: "GLRenderDevice \<Rightarrow> Buffer_S \<Rightarrow> fault + (GLRenderDevice \<times> gl_call list)" where
  "GLRenderDevice_destroyBuffer dev buffer =
     (if buffer \<in> set (dsa_buffers dev)
      then (let dev1 = dev\<lparr>dsa_buffers := remove1 buffer (dsa_buffers dev)\<rparr>
            in case vbo buffer of
                 None \<Rightarrow> Inr (dev1, [GlDeleteBuffers (bufobj buffer)])
               | Some a \<Rightarrow>
                   (case dsa_vbo_heap dev a of
                      None \<Rightarrow> Inl DanglingPointer
                    | Some binding \<Rightarrow>
                        Inr (dev1\<lparr>dsa_vbo_heap := (dsa_vbo_heap dev)(a \<mapsto> binding\<lparr>is_free := True\<rparr>)\<rparr>,
                             [GlDeleteBuffers (bufobj buffer)])))
      else Inr (dev, []))"

text \<open>
  \<open>getAttribType\<close> of the direct-state-access variant, and the loop of \<open>createPipeline\<close> that
  binds the existing vertex buffers, over the buffers still to visit:
  \<^verbatim>\<open>
  for(Buffer *buffer : buffers) {
      if(buffer->vbo) {
          glVertexArrayVertexBuffer(pipeline->vaobj, buffer->vbo->index, buffer->bufobj, 0,
                                    static_cast<GLsizei>(pipeline->vertex_stride));
      }
  }
  \<close>
\<close>

fun GLRenderDevice_getAttribType :: "VertexAttribType \<Rightarrow> nat" where
  "GLRenderDevice_getAttribType FLOAT32 = 5126"
| "GLRenderDevice_getAttribType FLOAT64 = 5130"
| "GLRenderDevice_getAttribType SIGNED_INT8 = 5120"
| "GLRenderDevice_getAttribType SIGNED_INT16 = 5122"
| "GLRenderDevice_getAttribType SIGNED_INT32 = 5124"
| "GLRenderDevice_getAttribType UNSIGNED_INT8 = 5121"
| "GLRenderDevice_getAttribType UNSIGNED_INT16 = 5123"
| "GLRenderDevice_getAttribType UNSIGNED_INT32 = 5125"

fun bindVertexBuffers :: "GLRenderDevice \<Rightarrow> GLPipeline \<Rightarrow> Buffer_S list \<Rightarrow> fault + gl_call list" where
  "bindVertexBuffers dev pipeline [] = Inr []"
| "bindVertexBuffers dev pipeline (buffer # rest) =
     (case vbo buffer of
        None \<Rightarrow> bindVertexBuffers dev pipeline rest
      | Some a \<Rightarrow>
          (case dsa_vbo_heap dev a of
             None \<Rightarrow> Inl DanglingPointer
           | Some binding \<Rightarrow>
               (case bindVertexBuffers dev pipeline rest of
                  Inl f \<Rightarrow> Inl f
                | Inr calls \<Rightarrow>
                    Inr (GlVertexArrayVertexBuffer (dsa_vaobj pipeline) (vbo_index binding)
                           (bufobj buffer) (toGLsizei (dsa_vertex_stride pipeline)) # calls))))"

text \<open>
  \<open>GLRenderDevice::createPipeline\<close>: the program pipeline and the vertex array are created
  (they take the names \<open>dsa_next_name\<close> and \<open>dsa_next_name + 1\<close>), the fields are filled in from
  the info, every attribute is enabled and given its format, every shader of the info that is
  not null is put to use, the existing vertex buffers are bound, and the pipeline is put at
  the end of \<open>pipelines\<close>.
\<close>

definition GLRenderDevice_createPipeline ::
  "GLRenderDevice \<Rightarrow> GLShader PipelineCreateInfo \<Rightarrow> fault + (GLRenderDevice \<times> GLPipeline \<times> gl_call list)" where
  "GLRenderDevice_createPipeline dev info =
     (let pp = dsa_next_name dev;
          va = pp + 1;
          pipeline =
            \<lparr>dsa_vaobj = va, ppobj = pp,
             dsa_blending_enabled = info_blending_enabled info,
             dsa_blending_equation = getBlendEquation (info_blending_equation info),
             dsa_blending_sfactor = getBlendFunc (info_blending_sfactor info),
             dsa_blending_dfactor = getBlendFunc (info_blending_dfactor info),
             dsa_depth_testing_enabled = info_depth_testing_enabled info,
             dsa_depth_testing_func = getDepthFunc (info_depth_testing_func info),
             dsa_face_culling_enabled = info_face_culling_enabled info,
             dsa_face_culling_front_face = (if cull_clockwise info then 2304 else 2305),
             dsa_face_culling_cull_face = getCullFace (cull_back info) (cull_front info),
             dsa_index_type = getIndexType (info_index_type info),
             dsa_primitive_mode = getPrimitiveType (info_primitive_mode info),
             dsa_fill_mode = getFillMode (info_fill_mode info),
             dsa_vertex_stride = info_vertex_stride info,
             dsa_attributes = vertex_attribs info\<rparr>;
          formats = concat (map (\<lambda>attrib.
                      [GlEnableVertexArrayAttrib va (attrib_id attrib),
                       GlVertexArrayAttribFormat va (attrib_id attrib) (toGLint (attrib_count attrib))
                         (GLRenderDevice_getAttribType (attrib_type attrib)) (attrib_normalized attrib)
                         (toGLuint (attrib_offset attrib))]) (vertex_attribs info));
          stages = concat (map (\<lambda>sh. case sh of None \<Rightarrow> []
                                        | Some s \<Rightarrow> [GlUseProgramStages pp (stage_bit s) (prog s)])
                               (shaders info))
      in case bindVertexBuffers dev pipeline (dsa_buffers dev) of
           Inl f \<Rightarrow> Inl f
         | Inr binds \<Rightarrow>
             Inr (dev\<lparr>dsa_next_name := pp + 2, dsa_pipelines := dsa_pipelines dev @ [pipeline]\<rparr>,
                  pipeline,
                  [GlCreateProgramPipelines pp, GlCreateVertexArrays va] @ formats @ stages @ binds))"

text \<open>
  \<^verbatim>\<open>
  void GLRenderDevice::destroyPipeline(Pipeline *pipeline)
  {
      for(auto it = pipelines.cbegin(); it != pipelines.cend(); it++) {
          if(*it == pipeline) {
              pipelines.erase(it);
              glDeleteVertexArrays(1, &pipeline->vaobj);
              glDeleteProgramPipelines(1, &pipeline->ppobj);
              delete pipeline;
              return;
          }
      }
  }
  \<close>
  A pipeline of this variant never changes after its creation; it is identified with its
  record, like a buffer.
\<close>

definition GLRenderDevice_destroyPipeline :: "GLRenderDevice \<Rightarrow> GLPipeline \<Rightarrow> GLRenderDevice \<times> gl_call list" where
  "GLRenderDevice_destroyPipeline dev pipeline =
     (if pipeline \<in> set (dsa_pipelines dev)
      then (dev\<lparr>dsa_pipelines := remove1 pipeline (dsa_pipelines dev)\<rparr>,
            [GlDeleteVertexArrays (dsa_vaobj pipeline), GlDeleteProgramPipelines (ppobj pipeline)])
      else (dev, []))"

datatype dsa_call =
    DsaCreateBuffer BufferCreateInfo
  | DsaDestroyBuffer Buffer_S
  | DsaCreatePipeline "GLShader PipelineCreateInfo"
  | DsaDestroyPipeline GLPipeline

fun GLRenderDevice_call :: "GLRenderDevice \<Rightarrow> dsa_call \<Rightarrow> fault + (GLRenderDevice \<times> gl_call list)" where
  "GLRenderDevice_call dev (DsaCreateBuffer info) =
     (case GLRenderDevice_createBuffer dev info of
        Inl f \<Rightarrow> Inl f | Inr (dev', buffer, calls) \<Rightarrow> Inr (dev', calls))"
| "GLRenderDevice_call dev (DsaDestroyBuffer buffer) = GLRenderDevice_destroyBuffer dev buffer"
| "GLRenderDevice_call dev (DsaCreatePipeline info) =
     (case GLRenderDevice_createPipeline dev info of
        Inl f \<Rightarrow> Inl f | Inr (dev', pipeline, calls) \<Rightarrow> Inr (dev', calls))"
| "GLRenderDevice_call dev (DsaDestroyPipeline pipeline) = Inr (GLRenderDevice_destroyPipeline dev pipeline)"

fun GLRenderDevice_calls :: "GLRenderDevice \<Rightarrow> dsa_call list \<Rightarrow> fault + (GLRenderDevice \<times> gl_call list)" where
  "GLRenderDevice_calls dev [] = Inr (dev, [])"
| "GLRenderDevice_calls dev (c # cs) =
     (case GLRenderDevice_call dev c of
        Inl f \<Rightarrow> Inl f
      | Inr (dev1, calls1) \<Rightarrow>
          (case GLRenderDevice_calls dev1 cs of
             Inl f \<Rightarrow> Inl f
           | Inr (dev2, calls2) \<Rightarrow> Inr (dev2, calls1 @ calls2)))"

subsection \<open>Reading a trace\<close>

text \<open>
  What the driver does with \<open>glEnable\<close> and \<open>glDisable\<close>: the set of enabled capabilities
  after a call, given the set before it.
\<close>

fun gl_caps :: "GLcap set \<Rightarrow> gl_call \<Rightarrow> GLcap set" where
  "gl_caps enabled (GlEnable c) = insert c enabled"
| "gl_caps enabled (GlDisable c) = enabled - {c}"
| "gl_caps enabled _ = enabled"

text \<open>The flag of a pipeline that belongs to a capability.\<close>

fun pipeline_enables :: "Pipeline_S \<Rightarrow> GLcap \<Rightarrow> bool" where
  "pipeline_enables p GL_BLEND = blending_enabled p"
| "pipeline_enables p GL_DEPTH_TEST = depth_testing_enabled p"
| "pipeline_enables p GL_CULL_FACE = face_culling_enabled p"
| "pipeline_enables p GL_SCISSOR_TEST = scissor_test p"












text \<open>
  Command lists that \<open>submit\<close> replays without a fault. A chain is usable when it is not null
  and none of its nodes has been freed. A list is well formed when every pipeline it binds has a
  usable chain, every vertex buffer it binds holds a slot, is bound after a pipeline (\<open>bound\<close>
  says whether one is bound when the list starts), and the device reports at least one binding
  point.
\<close>

definition chain_ok :: "(nat \<Rightarrow> VertexArray_S option) \<Rightarrow> nat list \<Rightarrow> bool" where
  "chain_ok heap chain = (chain \<noteq> [] \<and> list_all (\<lambda>a. heap a \<noteq> None) chain)"

fun commands_ok :: "RenderDeviceImpl \<Rightarrow> bool \<Rightarrow> Command list \<Rightarrow> bool" where
  "commands_ok dev bound [] = True"
| "commands_ok dev bound (BIND_PIPELINE p # cmds) =
     (chain_ok (vao_heap dev) (vaos p) \<and> commands_ok dev True cmds)"
| "commands_ok dev bound (BIND_VERTEX_BUFFER b # cmds) =
     (bound \<and> 0 < max_vbo_bindings dev
      \<and> (case vbo b of None \<Rightarrow> False | Some va \<Rightarrow> vbo_heap dev va \<noteq> None)
      \<and> commands_ok dev bound cmds)"
| "commands_ok dev bound (_ # cmds) = commands_ok dev bound cmds"











subsection \<open>Concrete inputs\<close>

text \<open>
  A pipeline with every feature enabled and the two attributes of \<^verbatim>\<open>examples/triangle.cpp\<close>;
  its only vertex-array group is the node at address 100.
\<close>

definition example_pipeline :: Pipeline_S where
  "example_pipeline =
     \<lparr>bound_ibo = 0, bound_vao = 0, program = 3,
      blending_enabled = True, blending_equation = 32774, blending_sfactor = 770,
      blending_dfactor = 771,
      depth_testing_enabled = True, depth_testing_func = 513,
      face_culling_enabled = True, face_culling_front_face = 2305, face_culling_cull_face = 1029,
      scissor_test = True, index_size = 2, index_type = 5123, primitive_mode = 4,
      fill_mode = 6914, vertex_stride = 16,
      attributes = [\<lparr>attrib_id = 0, attrib_type = FLOAT32, attrib_count = 2, attrib_offset = 0,
                      attrib_normalized = False\<rparr>,
                    \<lparr>attrib_id = 1, attrib_type = FLOAT32, attrib_count = 2, attrib_offset = 8,
                      attrib_normalized = False\<rparr>],
      vaos = [100]\<rparr>"

text \<open>
  A device with one vertex buffer in slot 0 and the pipeline above, and a command list of
  fourteen records of which the first thirteen are recorded.
\<close>

definition example_buffer :: Buffer_S where
  "example_buffer = \<lparr>bufobj = 7, vbo = Some 10, size_bytes = 48\<rparr>"

definition example_device :: RenderDeviceImpl where
  "example_device =
     \<lparr>onDebugMessage = False, max_vbo_bindings = 16, vbos = [10],
      bound_pipeline = null_pipeline, pipelines = [example_pipeline], buffers = [example_buffer],
      vbo_heap = [10 \<mapsto> \<lparr>vbo_index = 0, is_free = False\<rparr>],
      vao_heap = [100 \<mapsto> \<lparr>vao_index = 0, vaobj = 5, vbobj = 0\<rparr>],
      next_name = 200, framebuffer_binding = 0\<rparr>"

definition example_commands :: CommandListImpl where
  "example_commands =
     \<lparr>commands = [SET_VIEWPORT 0 0 640 480, SET_SCISSOR 0 0 640 480, SET_CLEAR_COLOR 0 0 0 1065353216,
                  CLEAR 16640, BIND_PIPELINE example_pipeline, BIND_INDEX_BUFFER 8,
                  BIND_VERTEX_BUFFER example_buffer, BIND_TEXTURE 1 3553 21, DRAW 3 1 0 0,
                  BIND_VERTEX_BUFFER example_buffer, SET_SCISSOR 10 10 100 100,
                  BIND_STORAGE_BUFFER 0 9, IDRAW 6 1 2 0 (- 1), SET_VIEWPORT 0 0 1 1],
      num_commands = 13\<rparr>"







definition example_dsa_device :: GLRenderDevice where
  "example_dsa_device =
     \<lparr>onMessage = True, dsa_vbos = [10], dsa_shaders = [], dsa_pipelines = [], dsa_buffers = [],
      dsa_rendertargets = [], dsa_vbo_heap = [10 \<mapsto> \<lparr>vbo_index = 0, is_free = True\<rparr>],
      dsa_next_name = 200\<rparr>"





text \<open>
  The slot a buffer holds: the index of its binding node. A vertex buffer of 48 bytes, as
  \<^verbatim>\<open>examples/triangle.cpp\<close> creates one.
\<close>

definition slot_of :: "(nat \<Rightarrow> VBOBinding option) \<Rightarrow> Buffer_S \<Rightarrow> nat option" where
  "slot_of heap buffer = (case vbo buffer of None \<Rightarrow> None | Some a \<Rightarrow> map_option vbo_index (heap a))"

definition vertex_buffer_info :: BufferCreateInfo where
  "vertex_buffer_info = \<lparr>buffer_type = VERTEX_BUFFER, buffer_size = 48, buffer_data = 4096\<rparr>"

text \<open>A vertex shader in GLSL source, and a driver whose compiler rejects it with a log.\<close>

definition example_shader_info :: ShaderCreateInfo where
  "example_shader_info =
     \<lparr>stage = VERTEX, shader_format = SOURCE_GLSL, code = ''void main() {}'', code_ptr = 4096,
      code_size = 14\<rparr>"

definition example_compiler :: "nat \<Rightarrow> string \<Rightarrow> bool \<times> string" where
  "example_compiler ty source = (False, ''0:1: error'')"

section \<open>Immediate buffer writes\<close>

lemma unat_size_t_add: "unat ((a :: size_t) + b) = (unat a + unat b) mod 2 ^ 64"
  by (simp add: unat_word_ariths)

text \<open>
  C10. The two variants differ at the capacity boundary. When \<open>offset + size\<close> is exactly the
  capacity of the buffer (the sum taken in the naturals, so nothing wraps), the 3.3 variant
  issues the write and the direct-state-access variant rejects the call and returns false.
\<close>

theorem writeBuffer_boundary_differs:
  assumes "unat offset + unat sz = unat (size_bytes buffer)"
  shows "RenderDeviceImpl_writeBuffer buffer offset sz data =
           [GlBindBuffer GL_COPY_READ_BUFFER (bufobj buffer),
            GlBufferSubData GL_COPY_READ_BUFFER (sint offset) (sint sz) data]
         \<and> GLRenderDevice_writeBuffer buffer offset sz data = (False, [])"
proof -
  have "unat (size_bytes buffer) < 2 ^ 64"
    using unsigned_less [of "size_bytes buffer"] by simp
  with assms have "unat (offset + sz) = unat (size_bytes buffer)"
    by (simp add: unat_size_t_add)
  then have "offset + sz = size_bytes buffer"
    by (simp add: word_unat_eq_iff)
  then show ?thesis
    by (simp add: RenderDeviceImpl_writeBuffer_def GLRenderDevice_writeBuffer_def)
qed

theorem writeBuffer_boundary_differs_witness:
  "RenderDeviceImpl_writeBuffer \<lparr>bufobj = 7, vbo = None, size_bytes = 12\<rparr> 4 8 0 =
     [GlBindBuffer GL_COPY_READ_BUFFER 7, GlBufferSubData GL_COPY_READ_BUFFER 4 8 0]
   \<and> GLRenderDevice_writeBuffer \<lparr>bufobj = 7, vbo = None, size_bytes = 12\<rparr> 4 8 0 = (False, [])"
  using writeBuffer_boundary_differs
    [of 4 8 "\<lparr>bufobj = 7, vbo = None, size_bytes = 12\<rparr>" 0]
  by simp

lemma unat_max_size_t: "unat (- 1 :: size_t) = 18446744073709551615"
  by (simp add: unsigned_minus_1_eq_mask mask_eq_exp_minus_1)

text \<open>
  Without wrap-around both guards reject a write that ends past the capacity.
\<close>

lemma writeBuffer_rejects_without_wrap:
  assumes "unat offset + unat sz < 2 ^ 64" and "unat offset + unat sz > unat (size_bytes buffer)"
  shows "RenderDeviceImpl_writeBuffer buffer offset sz data = []
         \<and> GLRenderDevice_writeBuffer buffer offset sz data = (False, [])"
proof -
  from assms(1) have "unat (offset + sz) = unat offset + unat sz"
    by (simp add: unat_size_t_add)
  with assms(2) have "size_bytes buffer < offset + sz"
    by (simp add: word_less_nat_alt)
  then show ?thesis
    by (simp add: RenderDeviceImpl_writeBuffer_def GLRenderDevice_writeBuffer_def)
qed

text \<open>
  C4, at the input where the code departs from it. The buffer holds 10 bytes, the offset is
  \<open>2 ^ 64 - 1\<close> and the size is 2, so \<open>offset + size\<close> is \<open>2 ^ 64 + 1\<close>, far past the end.
  In \<open>size_t\<close> the sum is 1, both guards pass, and both variants hand the write to the driver;
  the direct-state-access variant returns true.
\<close>

theorem writeBuffer_past_end_issued:
  "unat (- 1 :: size_t) + unat (2 :: size_t) = 2 ^ 64 + 1
   \<and> unat (size_bytes \<lparr>bufobj = 7, vbo = None, size_bytes = 10\<rparr>) = 10
   \<and> RenderDeviceImpl_writeBuffer \<lparr>bufobj = 7, vbo = None, size_bytes = 10\<rparr> (- 1) 2 0 =
       [GlBindBuffer GL_COPY_READ_BUFFER 7, GlBufferSubData GL_COPY_READ_BUFFER (- 1) 2 0]
   \<and> GLRenderDevice_writeBuffer \<lparr>bufobj = 7, vbo = None, size_bytes = 10\<rparr> (- 1) 2 0 =
       (True, [GlNamedBufferSubData 7 (- 1) 2 0])"
  by (simp add: RenderDeviceImpl_writeBuffer_def GLRenderDevice_writeBuffer_def unat_max_size_t
      word_le_nat_alt word_less_nat_alt)

text \<open>
  C9. Both guards compare \<open>(offset + size) mod 2 ^ 64\<close> with the capacity. For every buffer
  there are an offset and a size whose sum in the naturals exceeds the capacity and for which
  the 3.3 variant issues the write; the same holds for the direct-state-access variant and
  every buffer of non-zero capacity.
\<close>

theorem writeBuffer_guard_wraps:
  "RenderDeviceImpl_writeBuffer buffer offset sz data =
     (if (unat offset + unat sz) mod 2 ^ 64 > unat (size_bytes buffer) then []
      else [GlBindBuffer GL_COPY_READ_BUFFER (bufobj buffer),
            GlBufferSubData GL_COPY_READ_BUFFER (sint offset) (sint sz) data])
   \<and> GLRenderDevice_writeBuffer buffer offset sz data =
     (if (unat offset + unat sz) mod 2 ^ 64 \<ge> unat (size_bytes buffer) then (False, [])
      else (True, [GlNamedBufferSubData (bufobj buffer) (sint offset) (sint sz) data]))
   \<and> (\<exists>off n. unat off + unat n > unat (size_bytes buffer)
              \<and> RenderDeviceImpl_writeBuffer buffer off n data \<noteq> [])
   \<and> (0 < size_bytes buffer \<longrightarrow>
        (\<exists>off n. unat off + unat n > unat (size_bytes buffer)
              \<and> fst (GLRenderDevice_writeBuffer buffer off n data)))"
proof -
  have less: "\<And>a b :: size_t. (a < b) = (unat a < unat b)"
    by (simp add: word_less_nat_alt)
  have le: "\<And>a b :: size_t. (a \<le> b) = (unat a \<le> unat b)"
    by (simp add: word_le_nat_alt)
  have c1: "RenderDeviceImpl_writeBuffer buffer offset sz data =
     (if (unat offset + unat sz) mod 2 ^ 64 > unat (size_bytes buffer) then []
      else [GlBindBuffer GL_COPY_READ_BUFFER (bufobj buffer),
            GlBufferSubData GL_COPY_READ_BUFFER (sint offset) (sint sz) data])"
    by (simp add: RenderDeviceImpl_writeBuffer_def less unat_size_t_add)
  have c2: "GLRenderDevice_writeBuffer buffer offset sz data =
     (if (unat offset + unat sz) mod 2 ^ 64 \<ge> unat (size_bytes buffer) then (False, [])
      else (True, [GlNamedBufferSubData (bufobj buffer) (sint offset) (sint sz) data]))"
    by (simp add: GLRenderDevice_writeBuffer_def le unat_size_t_add)
  have bound: "unat (size_bytes buffer) < 2 ^ 64"
    using unsigned_less [of "size_bytes buffer"] by simp
  have c3: "unat (- 1 :: size_t) + unat (1 :: size_t) > unat (size_bytes buffer)
            \<and> RenderDeviceImpl_writeBuffer buffer (- 1) 1 data \<noteq> []"
    using bound by (simp add: RenderDeviceImpl_writeBuffer_def unat_max_size_t)
  have c4: "0 < size_bytes buffer \<Longrightarrow>
            unat (- 1 :: size_t) + unat (1 :: size_t) > unat (size_bytes buffer)
            \<and> fst (GLRenderDevice_writeBuffer buffer (- 1) 1 data)"
    using bound by (simp add: GLRenderDevice_writeBuffer_def word_gt_0 unat_max_size_t)
  from c1 c2 c3 c4 show ?thesis by blast
qed

theorem writeBuffer_guard_wraps_witness:
  "RenderDeviceImpl_writeBuffer \<lparr>bufobj = 7, vbo = None, size_bytes = 10\<rparr> (- 1) 2 0 =
     [GlBindBuffer GL_COPY_READ_BUFFER 7, GlBufferSubData GL_COPY_READ_BUFFER (- 1) 2 0]
   \<and> (\<exists>off n. unat off + unat n > unat (10 :: size_t)
         \<and> fst (GLRenderDevice_writeBuffer \<lparr>bufobj = 7, vbo = None, size_bytes = 10\<rparr> off n 0))"
  using writeBuffer_guard_wraps [of "\<lparr>bufobj = 7, vbo = None, size_bytes = 10\<rparr>" "- 1" 2 0]
  by (simp add: unat_max_size_t)

section \<open>Binding a pipeline\<close>

text \<open>
  C5. Replaying a bind-pipeline record makes the recorded pipeline the bound one and issues
  \<open>bindPipeline\<close>: its first four calls disable blending, the depth test, face culling and the
  scissor test, whatever the pipeline; after them no capability is disabled again, and a
  capability is enabled exactly if the pipeline has its flag set, with the parameters of the
  feature set as well. So whichever capabilities were enabled before, the ones enabled
  afterwards are exactly those of the new pipeline.
\<close>

theorem bindPipeline_resets_features:
  "submitCommand dev (BIND_PIPELINE p) = Inr (dev\<lparr>bound_pipeline := p\<rparr>, bindPipeline p)
   \<and> take 4 (bindPipeline p) =
       [GlDisable GL_BLEND, GlDisable GL_DEPTH_TEST, GlDisable GL_CULL_FACE, GlDisable GL_SCISSOR_TEST]
   \<and> (GlEnable c \<in> set (drop 4 (bindPipeline p))) = pipeline_enables p c
   \<and> GlDisable c \<notin> set (drop 4 (bindPipeline p))
   \<and> foldl gl_caps enabled_before (bindPipeline p) = {c. pipeline_enables p c}
   \<and> (blending_enabled p \<longrightarrow>
         GlBlendEquation (blending_equation p) \<in> set (bindPipeline p)
         \<and> GlBlendFunc (blending_sfactor p) (blending_dfactor p) \<in> set (bindPipeline p))
   \<and> (depth_testing_enabled p \<longrightarrow> GlDepthFunc (depth_testing_func p) \<in> set (bindPipeline p))
   \<and> (face_culling_enabled p \<longrightarrow>
         GlCullFace (face_culling_cull_face p) \<in> set (bindPipeline p)
         \<and> GlFrontFace (face_culling_front_face p) \<in> set (bindPipeline p))"
proof -
  have enable: "(GlEnable c \<in> set (drop 4 (bindPipeline p))) = pipeline_enables p c"
    by (cases c) (auto simp: bindPipeline_def)
  have disable: "GlDisable c \<notin> set (drop 4 (bindPipeline p))"
    by (simp add: bindPipeline_def)
  have caps: "foldl gl_caps enabled_before (bindPipeline p) = {c. pipeline_enables p c}"
  proof (rule set_eqI)
    fix c show "(c \<in> foldl gl_caps enabled_before (bindPipeline p)) = (c \<in> {c. pipeline_enables p c})"
      by (cases c) (simp_all add: bindPipeline_def)
  qed
  show ?thesis
    using enable disable caps by (simp add: bindPipeline_def)
qed

theorem bindPipeline_resets_features_witness:
  "blending_enabled example_pipeline \<and> depth_testing_enabled example_pipeline
   \<and> face_culling_enabled example_pipeline
   \<and> foldl gl_caps {GL_BLEND, GL_SCISSOR_TEST} (bindPipeline example_pipeline) = UNIV
   \<and> foldl gl_caps {GL_BLEND, GL_SCISSOR_TEST}
        (bindPipeline (example_pipeline\<lparr>blending_enabled := False, scissor_test := False\<rparr>))
      = {GL_DEPTH_TEST, GL_CULL_FACE}
   \<and> GlBlendEquation 32774 \<in> set (bindPipeline example_pipeline)
   \<and> GlBlendFunc 770 771 \<in> set (bindPipeline example_pipeline)
   \<and> GlDepthFunc 513 \<in> set (bindPipeline example_pipeline)
   \<and> GlCullFace 1029 \<in> set (bindPipeline example_pipeline)
   \<and> GlFrontFace 2305 \<in> set (bindPipeline example_pipeline)"
proof -
  have all: "{c. pipeline_enables example_pipeline c} = UNIV"
  proof (rule set_eqI)
    fix c show "(c \<in> {c. pipeline_enables example_pipeline c}) = (c \<in> UNIV)"
      by (cases c) (simp_all add: example_pipeline_def)
  qed
  have some: "{c. pipeline_enables (example_pipeline\<lparr>blending_enabled := False, scissor_test := False\<rparr>) c}
              = {GL_DEPTH_TEST, GL_CULL_FACE}"
  proof (rule set_eqI)
    fix c
    show "(c \<in> {c. pipeline_enables (example_pipeline\<lparr>blending_enabled := False, scissor_test := False\<rparr>) c})
          = (c \<in> {GL_DEPTH_TEST, GL_CULL_FACE})"
      by (cases c) (simp_all add: example_pipeline_def)
  qed
  show ?thesis
    using bindPipeline_resets_features
            [of undefined example_pipeline GL_BLEND "{GL_BLEND, GL_SCISSOR_TEST}"]
          bindPipeline_resets_features
            [of undefined "example_pipeline\<lparr>blending_enabled := False, scissor_test := False\<rparr>"
                GL_BLEND "{GL_BLEND, GL_SCISSOR_TEST}"]
          all some
    by (simp add: example_pipeline_def)
qed

section \<open>Replaying a command list\<close>














text \<open>A well-formed list is replayed to its end: \<open>submit\<close> returns.\<close>

lemma findVertexArray_ok:
  "list_all (\<lambda>a. heap a \<noteq> None) chain \<Longrightarrow>
   \<exists>r. findVertexArray heap chain idx = Inr r \<and> (\<forall>a. r = Some a \<longrightarrow> a \<in> set chain)"
  by (induction chain) auto

lemma getVertexArray_ok:
  assumes "chain_ok (vao_heap dev) head"
  shows "\<exists>dev1 head1 a calls.
           getVertexArray dev head idx p = Inr (dev1, head1, a, calls)
           \<and> chain_ok (vao_heap dev1) head1 \<and> vao_heap dev1 a \<noteq> None
           \<and> (\<forall>x. vao_heap dev x \<noteq> None \<longrightarrow> vao_heap dev1 x \<noteq> None)
           \<and> vbo_heap dev1 = vbo_heap dev \<and> max_vbo_bindings dev1 = max_vbo_bindings dev"
proof -
  from assms have ne: "head \<noteq> []" and all: "list_all (\<lambda>a. vao_heap dev a \<noteq> None) head"
    by (simp_all add: chain_ok_def)
  from findVertexArray_ok [OF all, of idx] obtain r where
    r: "findVertexArray (vao_heap dev) head idx = Inr r" and mem: "\<forall>a. r = Some a \<longrightarrow> a \<in> set head"
    by blast
  show ?thesis
  proof (cases r)
    case None
    with r have none: "findVertexArray (vao_heap dev) head idx = Inr None" by simp
    from ne obtain h t where head: "head = h # t" by (cases head) auto
    with all obtain hnode where h: "vao_heap dev h = Some hnode" by auto
    show ?thesis using none head h all
      by (simp add: getVertexArray_def Let_def chain_ok_def list_all_iff)
  next
    case (Some a)
    with r mem have "findVertexArray (vao_heap dev) head idx = Inr (Some a)" and "a \<in> set head"
      by simp_all
    then show ?thesis using assms all
      by (simp add: getVertexArray_def chain_ok_def list_all_iff)
  qed
qed

lemma bindVertexBuffer_ok:
  assumes "chain_ok (vao_heap dev) (vaos (bound_pipeline dev))" and "0 < max_vbo_bindings dev"
    and "vbo b = Some va" and "vbo_heap dev va = Some binding"
  shows "\<exists>dev1 calls. bindVertexBuffer dev b = Inr (dev1, calls)
           \<and> chain_ok (vao_heap dev1) (vaos (bound_pipeline dev1))
           \<and> (\<forall>x. vao_heap dev x \<noteq> None \<longrightarrow> vao_heap dev1 x \<noteq> None)
           \<and> vbo_heap dev1 = vbo_heap dev \<and> max_vbo_bindings dev1 = max_vbo_bindings dev"
proof -
  from getVertexArray_ok [OF assms(1), of "vbo_index binding div max_vbo_bindings dev" "bound_pipeline dev"]
  obtain dev0 head1 a calls1 where
    g: "getVertexArray dev (vaos (bound_pipeline dev))
          (vbo_index binding div max_vbo_bindings dev) (bound_pipeline dev) = Inr (dev0, head1, a, calls1)"
    and c: "chain_ok (vao_heap dev0) head1" and a: "vao_heap dev0 a \<noteq> None"
    and mono: "\<forall>x. vao_heap dev x \<noteq> None \<longrightarrow> vao_heap dev0 x \<noteq> None"
    and same: "vbo_heap dev0 = vbo_heap dev" "max_vbo_bindings dev0 = max_vbo_bindings dev"
    by blast
  from a obtain vaonode where n: "vao_heap dev0 a = Some vaonode" by auto
  show ?thesis
    using assms(2-4) g c n mono same
    by (simp add: bindVertexBuffer_def Let_def chain_ok_def list_all_iff)
qed

lemma commands_ok_mono:
  assumes "\<forall>x. vao_heap dev x \<noteq> None \<longrightarrow> vao_heap dev1 x \<noteq> None"
    and "vbo_heap dev1 = vbo_heap dev" and "max_vbo_bindings dev1 = max_vbo_bindings dev"
  shows "commands_ok dev bound cmds \<Longrightarrow> commands_ok dev1 bound cmds"
  using assms
  by (induction dev bound cmds rule: commands_ok.induct)
     (auto simp: chain_ok_def list_all_iff split: option.splits)

lemma replay_returns:
  "commands_ok dev bound cmds \<Longrightarrow>
   (bound \<longrightarrow> chain_ok (vao_heap dev) (vaos (bound_pipeline dev))) \<Longrightarrow>
   \<exists>dev' tr. replay dev cmds = Inr (dev', tr)"
proof (induction cmds arbitrary: dev bound)
  case Nil
  then show ?case by simp
next
  case (Cons cmd cmds)
  show ?case
  proof (cases cmd)
    case (BIND_PIPELINE p)
    with Cons.prems have ok: "commands_ok dev True cmds" and c: "chain_ok (vao_heap dev) (vaos p)"
      by simp_all
    have "commands_ok (dev\<lparr>bound_pipeline := p\<rparr>) True cmds"
      by (rule commands_ok_mono [OF _ _ _ ok]) simp_all
    from Cons.IH [OF this] c obtain dev' tr where "replay (dev\<lparr>bound_pipeline := p\<rparr>) cmds = Inr (dev', tr)"
      by auto
    with BIND_PIPELINE show ?thesis by simp
  next
    case (BIND_VERTEX_BUFFER b)
    with Cons.prems obtain va binding where b: "bound" "0 < max_vbo_bindings dev"
      "vbo b = Some va" "vbo_heap dev va = Some binding" and ok: "commands_ok dev bound cmds"
      by (auto split: option.splits)
    from b Cons.prems(2) have c: "chain_ok (vao_heap dev) (vaos (bound_pipeline dev))" by simp
    from bindVertexBuffer_ok [OF c b(2-4)] obtain dev1 calls where
      s: "bindVertexBuffer dev b = Inr (dev1, calls)"
      and c1: "chain_ok (vao_heap dev1) (vaos (bound_pipeline dev1))"
      and mono: "\<forall>x. vao_heap dev x \<noteq> None \<longrightarrow> vao_heap dev1 x \<noteq> None"
      and same: "vbo_heap dev1 = vbo_heap dev" "max_vbo_bindings dev1 = max_vbo_bindings dev"
      by blast
    have "commands_ok dev1 bound cmds"
      by (rule commands_ok_mono [OF mono same ok])
    from Cons.IH [OF this] c1 obtain dev' tr where "replay dev1 cmds = Inr (dev', tr)" by auto
    with BIND_VERTEX_BUFFER s show ?thesis by simp
  next
    case (BIND_INDEX_BUFFER obj)
    with Cons.prems have ok: "commands_ok dev bound cmds" by simp
    let ?d = "dev\<lparr>bound_pipeline := (bound_pipeline dev)\<lparr>bound_ibo := obj\<rparr>\<rparr>"
    have "commands_ok ?d bound cmds"
      by (rule commands_ok_mono [OF _ _ _ ok]) simp_all
    from Cons.IH [OF this] Cons.prems(2) obtain dev' tr where "replay ?d cmds = Inr (dev', tr)"
      by auto
    with BIND_INDEX_BUFFER show ?thesis by simp
  next
    case (BIND_RENDER_TARGET obj)
    with Cons.prems have ok: "commands_ok dev bound cmds" by simp
    let ?d = "dev\<lparr>framebuffer_binding := obj\<rparr>"
    have "commands_ok ?d bound cmds"
      by (rule commands_ok_mono [OF _ _ _ ok]) simp_all
    from Cons.IH [OF this] Cons.prems(2) obtain dev' tr where "replay ?d cmds = Inr (dev', tr)"
      by auto
    with BIND_RENDER_TARGET show ?thesis by simp
  qed (use Cons.prems Cons.IH [of dev bound] in \<open>auto simp: Let_def\<close>)
qed

lemma submit_returns:
  assumes "num_commands glcommands \<le> length (commands glcommands)"
    and "commands_ok dev (chain_ok (vao_heap dev) (vaos (bound_pipeline dev)))
           (take (num_commands glcommands) (commands glcommands))"
  shows "\<exists>dev' tr. submit dev glcommands = Inr (dev', tr)"
  using replay_returns [OF assms(2)] assms(1) by (simp add: submit_def)

lemma example_commands_ok:
  "commands_ok example_device (chain_ok (vao_heap example_device) (vaos (bound_pipeline example_device)))
     (take (num_commands example_commands) (commands example_commands))"
  by (simp add: example_commands_def example_device_def example_pipeline_def example_buffer_def
        chain_ok_def null_pipeline_def)








section \<open>Creating a render target\<close>






section \<open>Creating a shader\<close>

lemma info_log_length_gt_1: "(info_log_length info_log > 1) = (info_log \<noteq> [])"
  by (cases info_log) (simp_all add: info_log_length_def)

text \<open>
  C7 as stated fails: not every shader creation call preprocesses and compiles. With a
  debug callback registered, the 3.3 device asked for a shader in the format \<open>BINARY_SPIRV\<close>
  creates the shader object, deletes it and returns null; no source is uploaded and nothing
  is compiled.
\<close>

theorem createShader_spirv_not_compiled:
  "snd (createShader example_compiler (example_device\<lparr>onDebugMessage := True\<rparr>)
          (example_shader_info\<lparr>shader_format := BINARY_SPIRV\<rparr>))
     = (None, [GlCreateShader GL_VERTEX_SHADER 200, GlDeleteShader 200], [])"
  by (simp add: createShader_def example_device_def example_shader_info_def Let_def)

text \<open>
  C7, amended. For every shader creation call in the format \<open>SOURCE_GLSL\<close>: the source handed
  to the driver is the code behind the version line, the library macro, the macro of the stage
  (and, in the 3.3 variant, the macro of the format), and it is compiled; if compilation fails
  the shader object is deleted and null is returned (the direct-state-access device registers
  nothing); and when a debug callback is registered, a non-empty compiler log is passed to it,
  whether compilation succeeded or not. A call in any other format makes the 3.3 variant delete
  the shader object and return null without compiling. The direct-state-access variant loads a
  \<open>BINARY_SPIRV\<close> shader as a binary, its size converted to \<open>GLsizei\<close>, and specialises it,
  without macro injection, and treats the outcome of that like the outcome of a compilation;
  it deletes the shader object and returns null without compiling for every format other than
  these two. After a successful compilation or specialisation it links the shader into a
  program of its own, passes a non-empty link log to a registered callback, and returns null
  after deleting the program when linking fails.
\<close>

theorem createShader_by_format:
  assumes "source = ''#version 330 core'' @ endl @ ''#define _UVRE_ 1'' @ endl
                    @ stageMacro (stage info) @ ''#define _GLSL_ 1'' @ endl @ code info"
    and "compiler (stageEnum (stage info)) source = (status, info_log)"
    and "dsa_source = ''#version 460 core'' @ endl @ ''#define UVRE_SOURCE 1'' @ endl
                      @ dsaStageMacro (stage info) @ code info"
    and "dsa_compiler (stageEnum (stage info)) dsa_source = (dsa_status, dsa_log)"
    and "specializer (stageEnum (stage info)) (code_ptr info) (toGLsizei (code_size info))
           = (sp_status, sp_log)"
    and "linker (dsa_next_name dsa + 1) = (link_status, link_log)"
    and "load = (if shader_format info = SOURCE_GLSL
                 then [GlShaderSource (dsa_next_name dsa) dsa_source, GlCompileShader (dsa_next_name dsa)]
                 else [GlShaderBinary (dsa_next_name dsa) (code_ptr info) (toGLsizei (code_size info)),
                       GlSpecializeShader (dsa_next_name dsa)])"
    and "load_status = (if shader_format info = SOURCE_GLSL then dsa_status else sp_status)"
    and "load_log = (if shader_format info = SOURCE_GLSL then dsa_log else sp_log)"
    and "link = [GlCreateProgram (dsa_next_name dsa + 1), GlProgramSeparable (dsa_next_name dsa + 1),
                 GlAttachShader (dsa_next_name dsa + 1) (dsa_next_name dsa),
                 GlLinkProgram (dsa_next_name dsa + 1), GlDeleteShader (dsa_next_name dsa)]"
    and "sh = \<lparr>prog = dsa_next_name dsa + 1, prog_stage = stage info, stage_bit = stageBit (stage info)\<rparr>"
  shows "createShader compiler dev info =
           (if shader_format info = SOURCE_GLSL
            then (dev\<lparr>next_name := next_name dev + 1\<rparr>,
                  (if status then Some \<lparr>shader = next_name dev, shader_stage = stage info\<rparr> else None),
                  [GlCreateShader (stageEnum (stage info)) (next_name dev),
                   GlShaderSource (next_name dev) source, GlCompileShader (next_name dev)]
                  @ (if status then [] else [GlDeleteShader (next_name dev)]),
                  (if onDebugMessage dev \<and> info_log \<noteq> [] then [(INFO, info_log)] else []))
            else (dev\<lparr>next_name := next_name dev + 1\<rparr>, None,
                  [GlCreateShader (stageEnum (stage info)) (next_name dev), GlDeleteShader (next_name dev)],
                  []))
         \<and> GLRenderDevice_createShader dsa_compiler specializer linker dsa info =
           (if shader_format info = SOURCE_GLSL \<or> shader_format info = BINARY_SPIRV
            then (if \<not> load_status
                  then (dsa\<lparr>dsa_next_name := dsa_next_name dsa + 1\<rparr>, None,
                        [GlCreateShader (stageEnum (stage info)) (dsa_next_name dsa)] @ load
                        @ [GlDeleteShader (dsa_next_name dsa)],
                        (if onMessage dsa \<and> load_log \<noteq> [] then [load_log] else []))
                  else if \<not> link_status
                  then (dsa\<lparr>dsa_next_name := dsa_next_name dsa + 2\<rparr>, None,
                        [GlCreateShader (stageEnum (stage info)) (dsa_next_name dsa)] @ load @ link
                        @ [GlDeleteProgram (dsa_next_name dsa + 1)],
                        (if onMessage dsa \<and> load_log \<noteq> [] then [load_log] else [])
                        @ (if onMessage dsa \<and> link_log \<noteq> [] then [link_log] else []))
                  else (dsa\<lparr>dsa_next_name := dsa_next_name dsa + 2,
                             dsa_shaders := dsa_shaders dsa @ [sh]\<rparr>, Some sh,
                        [GlCreateShader (stageEnum (stage info)) (dsa_next_name dsa)] @ load @ link,
                        (if onMessage dsa \<and> load_log \<noteq> [] then [load_log] else [])
                        @ (if onMessage dsa \<and> link_log \<noteq> [] then [link_log] else [])))
            else (dsa\<lparr>dsa_next_name := dsa_next_name dsa + 1\<rparr>, None,
                  [GlCreateShader (stageEnum (stage info)) (dsa_next_name dsa),
                   GlDeleteShader (dsa_next_name dsa)],
                  []))"
proof -
  have gl33: "createShader compiler dev info =
           (if shader_format info = SOURCE_GLSL
            then (dev\<lparr>next_name := next_name dev + 1\<rparr>,
                  (if status then Some \<lparr>shader = next_name dev, shader_stage = stage info\<rparr> else None),
                  [GlCreateShader (stageEnum (stage info)) (next_name dev),
                   GlShaderSource (next_name dev) source, GlCompileShader (next_name dev)]
                  @ (if status then [] else [GlDeleteShader (next_name dev)]),
                  (if onDebugMessage dev \<and> info_log \<noteq> [] then [(INFO, info_log)] else []))
            else (dev\<lparr>next_name := next_name dev + 1\<rparr>, None,
                  [GlCreateShader (stageEnum (stage info)) (next_name dev), GlDeleteShader (next_name dev)],
                  []))"
    using assms(1,2)
    by (cases "shader_format info")
       (simp_all add: createShader_def Let_def shaderHeader_def info_log_length_gt_1)
  have dsa: "GLRenderDevice_createShader dsa_compiler specializer linker dsa info =
           (if shader_format info = SOURCE_GLSL \<or> shader_format info = BINARY_SPIRV
            then (if \<not> load_status
                  then (dsa\<lparr>dsa_next_name := dsa_next_name dsa + 1\<rparr>, None,
                        [GlCreateShader (stageEnum (stage info)) (dsa_next_name dsa)] @ load
                        @ [GlDeleteShader (dsa_next_name dsa)],
                        (if onMessage dsa \<and> load_log \<noteq> [] then [load_log] else []))
                  else if \<not> link_status
                  then (dsa\<lparr>dsa_next_name := dsa_next_name dsa + 2\<rparr>, None,
                        [GlCreateShader (stageEnum (stage info)) (dsa_next_name dsa)] @ load @ link
                        @ [GlDeleteProgram (dsa_next_name dsa + 1)],
                        (if onMessage dsa \<and> load_log \<noteq> [] then [load_log] else [])
                        @ (if onMessage dsa \<and> link_log \<noteq> [] then [link_log] else []))
                  else (dsa\<lparr>dsa_next_name := dsa_next_name dsa + 2,
                             dsa_shaders := dsa_shaders dsa @ [sh]\<rparr>, Some sh,
                        [GlCreateShader (stageEnum (stage info)) (dsa_next_name dsa)] @ load @ link,
                        (if onMessage dsa \<and> load_log \<noteq> [] then [load_log] else [])
                        @ (if onMessage dsa \<and> link_log \<noteq> [] then [link_log] else [])))
            else (dsa\<lparr>dsa_next_name := dsa_next_name dsa + 1\<rparr>, None,
                  [GlCreateShader (stageEnum (stage info)) (dsa_next_name dsa),
                   GlDeleteShader (dsa_next_name dsa)],
                  []))"
    using assms(3-11)
    by (cases "shader_format info")
       (simp_all add: GLRenderDevice_createShader_def Let_def dsaShaderHeader_def info_log_length_gt_1)
  from gl33 dsa show ?thesis by (rule conjI)
qed

theorem createShader_by_format_witness:
  "createShader example_compiler (example_device\<lparr>onDebugMessage := True\<rparr>) example_shader_info
     = (example_device\<lparr>onDebugMessage := True, next_name := 201\<rparr>, None,
        [GlCreateShader GL_VERTEX_SHADER 200,
         GlShaderSource 200 (''#version 330 core'' @ endl @ ''#define _UVRE_ 1'' @ endl
                             @ ''#define _VERTEX_SHADER_ 1'' @ endl @ ''#define _GLSL_ 1'' @ endl
                             @ ''void main() {}''),
         GlCompileShader 200, GlDeleteShader 200],
        [(INFO, ''0:1: error'')])
   \<and> GLRenderDevice_createShader example_compiler (\<lambda>ty p n. (n = 5, ''spirv'')) (\<lambda>p. (True, []))
        example_dsa_device example_shader_info
     = (example_dsa_device\<lparr>dsa_next_name := 201\<rparr>, None,
        [GlCreateShader GL_VERTEX_SHADER 200,
         GlShaderSource 200 (''#version 460 core'' @ endl @ ''#define UVRE_SOURCE 1'' @ endl
                             @ ''#define VERTEX_SHADER 1'' @ endl @ ''void main() {}''),
         GlCompileShader 200, GlDeleteShader 200],
        [''0:1: error''])
   \<and> GLRenderDevice_createShader example_compiler (\<lambda>ty p n. (n = 5, ''spirv'')) (\<lambda>p. (True, []))
        example_dsa_device (example_shader_info\<lparr>shader_format := BINARY_SPIRV, code_size := 4294967301\<rparr>)
     = (example_dsa_device
          \<lparr>dsa_next_name := 202,
            dsa_shaders := [\<lparr>prog = 201, prog_stage = VERTEX, stage_bit = GL_VERTEX_SHADER_BIT\<rparr>]\<rparr>,
        Some \<lparr>prog = 201, prog_stage = VERTEX, stage_bit = GL_VERTEX_SHADER_BIT\<rparr>,
        [GlCreateShader GL_VERTEX_SHADER 200, GlShaderBinary 200 4096 5, GlSpecializeShader 200,
         GlCreateProgram 201, GlProgramSeparable 201, GlAttachShader 201 200, GlLinkProgram 201,
         GlDeleteShader 200],
        [''spirv''])
   \<and> GLRenderDevice_createShader example_compiler (\<lambda>ty p n. (n = 5, ''spirv'')) (\<lambda>p. (True, []))
        example_dsa_device (example_shader_info\<lparr>shader_format := OTHER_FORMAT 7\<rparr>)
     = (example_dsa_device\<lparr>dsa_next_name := 201\<rparr>, None,
        [GlCreateShader GL_VERTEX_SHADER 200, GlDeleteShader 200], [])"
proof -
  have c: "example_compiler ty src = (False, ''0:1: error'')" for ty src
    by (simp add: example_compiler_def)
  have five: "toGLsizei 4294967301 = 5"
    by (simp add: toGLsizei_def)
  note w = createShader_by_format
         [where compiler = example_compiler and dsa_compiler = example_compiler
            and dev = "example_device\<lparr>onDebugMessage := True\<rparr>"
            and specializer = "\<lambda>ty p n. (n = 5, ''spirv'')" and linker = "\<lambda>p. (True, [])"
            and dsa = example_dsa_device, OF refl c refl c refl refl refl refl refl refl refl]
  from w [of example_shader_info]
       w [of "example_shader_info\<lparr>shader_format := BINARY_SPIRV, code_size := 4294967301\<rparr>"]
       w [of "example_shader_info\<lparr>shader_format := OTHER_FORMAT 7\<rparr>"]
       five
  show ?thesis
    by (simp add: example_shader_info_def example_device_def example_dsa_device_def)
qed

section \<open>Vertex-binding slots\<close>

text \<open>
  C1. The claim does not hold of the direct-state-access device. Its \<open>getFreeVBOBinding\<close>
  creates the new node inside the scan, when it stands at the last node of the chain, and gives
  it the index of that node plus one; new nodes are put in front, so the last node is always
  the node of index 0 and every new node gets the index 1. Three vertex buffers created one
  after the other on a new device are all alive and hold the slots 0, 1 and 1: slot 1 is held
  by two live buffers. The 3.3 device, which takes the index of the first node plus one after
  the scan, gives the same three buffers the slots 0, 1 and 2.
\<close>

theorem GLRenderDevice_slot_held_twice:
  "(case GLRenderDevice_calls (newGLRenderDevice False)
           [DsaCreateBuffer vertex_buffer_info, DsaCreateBuffer vertex_buffer_info,
            DsaCreateBuffer vertex_buffer_info] of
      Inl f \<Rightarrow> False
    | Inr (dev, calls) \<Rightarrow>
        dsa_buffers dev = [\<lparr>bufobj = 2, vbo = Some 0, size_bytes = 48\<rparr>,
                           \<lparr>bufobj = 3, vbo = Some 4, size_bytes = 48\<rparr>,
                           \<lparr>bufobj = 5, vbo = Some 6, size_bytes = 48\<rparr>]
        \<and> map (slot_of (dsa_vbo_heap dev)) (dsa_buffers dev) = [Some 0, Some 1, Some 1]
        \<and> map (\<lambda>a. map_option vbo_index (dsa_vbo_heap dev a)) (dsa_vbos dev) = [Some 1, Some 1, Some 0])
   \<and> (case deviceCalls (newRenderDeviceImpl False 16)
           [CreateBuffer vertex_buffer_info, CreateBuffer vertex_buffer_info,
            CreateBuffer vertex_buffer_info] of
      Inl f \<Rightarrow> False
    | Inr (dev, calls) \<Rightarrow> map (slot_of (vbo_heap dev)) (buffers dev) = [Some 0, Some 1, Some 2])"
  by (simp add: newGLRenderDevice_def vertex_buffer_info_def GLRenderDevice_createBuffer_def
        GLRenderDevice_getFreeVBOBinding_def Let_def slot_of_def
        newRenderDeviceImpl_def createBuffer_def getFreeVBOBinding_def)

end
